theory Spec2Isabelle
  imports Complex_Main
begin

section \<open>Galaxy simulation: data model\<close>

text \<open>
  The simulation of \<^verbatim>\<open>src/galaxy.js\<close> runs four GPU kernels over storage buffers: two
  generation kernels (\<^verbatim>\<open>computeInit\<close>, \<^verbatim>\<open>cloudInit\<close>) and two per-frame kernels
  (\<^verbatim>\<open>computeUpdate\<close>, \<^verbatim>\<open>cloudUpdate\<close>). Every kernel invocation reads and writes only the
  buffer elements of its own \<^verbatim>\<open>instanceIndex\<close>, so a dispatch over \<^verbatim>\<open>COUNT\<close> invocations is
  a map over the indices \<open>0..<COUNT\<close>.

  Scalars are modelled as mathematical reals: the rounding of the GPU's 32-bit floats is
  not part of the model. A \<^verbatim>\<open>vec3\<close> is a triple of scalars, a \<^verbatim>\<open>vec4\<close> a quadruple.
\<close>

datatype vec3 = Vec3 (vec_x: real) (vec_y: real) (vec_z: real)

datatype vec4 = Vec4 real real real real

definition vec_zero :: vec3 where
  "vec_zero = Vec3 0 0 0"

fun vec_add :: "vec3 \<Rightarrow> vec3 \<Rightarrow> vec3" where
  "vec_add (Vec3 a b c) (Vec3 d e f) = Vec3 (a + d) (b + e) (c + f)"

fun vec_sub :: "vec3 \<Rightarrow> vec3 \<Rightarrow> vec3" where
  "vec_sub (Vec3 a b c) (Vec3 d e f) = Vec3 (a - d) (b - e) (c - f)"

fun vec_mul :: "vec3 \<Rightarrow> real \<Rightarrow> vec3" where
  "vec_mul (Vec3 a b c) k = Vec3 (a * k) (b * k) (c * k)"

fun vec_length :: "vec3 \<Rightarrow> real" where
  "vec_length (Vec3 a b c) = sqrt (a * a + b * b + c * c)"

definition distance :: "vec3 \<Rightarrow> vec3 \<Rightarrow> real" where
  "distance p q = vec_length (vec_sub p q)"

text \<open>The uniforms, grouped as \<^verbatim>\<open>initializeUniforms\<close> groups them.\<close>

record compute_uniforms =
  time :: real
  deltaTime :: real
  mouse :: vec3
  mouseActive :: real
  mouseForce :: real
  mouseRadius :: real
  rotationSpeed :: real

record galaxy_uniforms =
  radius :: real
  thickness :: real
  spiralTightness :: real
  armCount :: real
  armWidth :: real
  randomness :: real

record visual_uniforms =
  particleSize :: real
  cloudSize :: real
  cloudOpacity :: real
  starBrightness :: real
  denseStarColor :: vec3
  sparseStarColor :: vec3
  cloudTintColor :: vec3

record uniforms =
  compute :: compute_uniforms
  galaxy :: galaxy_uniforms
  visual :: visual_uniforms

text \<open>
  The four functions that \<^verbatim>\<open>galaxy.js\<close> imports from \<^verbatim>\<open>./helpers.js\<close>. That file is not
  among the sources, so the kernels take the helpers as a parameter; each helper is a
  pure function of its arguments.
\<close>

record helpers =
  hash :: "real \<Rightarrow> real"
  applyDifferentialRotation :: "vec3 \<Rightarrow> real \<Rightarrow> real \<Rightarrow> vec3"
  applyMouseForce :: "vec3 \<Rightarrow> vec3 \<Rightarrow> real \<Rightarrow> real \<Rightarrow> real \<Rightarrow> real \<Rightarrow> vec3"
  applySpringForce :: "vec3 \<Rightarrow> vec3 \<Rightarrow> real \<Rightarrow> real \<Rightarrow> vec3"

text \<open>
  The buffers the cloud kernels close over (local constants of \<^verbatim>\<open>createClouds\<close>), with the
  \<^verbatim>\<open>CLOUD_COUNT\<close> the kernels were built for.
\<close>

record cloud_system =
  CLOUD_COUNT :: nat
  cloudPositionBuffer :: "vec3 list"
  cloudOriginalPositionBuffer :: "vec3 list"
  cloudColorSizeBuffer :: "vec4 list"
  cloudRotationBuffer :: "real list"

text \<open>
  The fields of a \<^verbatim>\<open>GalaxySimulation\<close> that the kernels and the controller use. The star
  kernels \<^verbatim>\<open>computeInit\<close> and \<^verbatim>\<open>computeUpdate\<close> exist in every state of the model: a state
  is one in which \<^verbatim>\<open>createGalaxySystem\<close> has run, as \<^verbatim>\<open>main.js\<close> does right after the
  constructor. The field \<open>clouds\<close> is \<open>None\<close> while \<^verbatim>\<open>this.cloudInit\<close> and
  \<^verbatim>\<open>this.cloudUpdate\<close> are \<^verbatim>\<open>null\<close>; \<^verbatim>\<open>createClouds\<close> sets both at once.
\<close>

record sim =
  COUNT :: nat
  config_cloudCount :: nat
  unis :: uniforms
  spawnPositionBuffer :: "vec3 list"
  originalPositionBuffer :: "vec3 list"
  velocityBuffer :: "vec3 list"
  densityFactorBuffer :: "real list"
  clouds :: "cloud_system option"
  initialized :: bool
  cloudInitialized :: bool

section \<open>Generation kernels\<close>

subsection \<open>Stars: the body of \<^verbatim>\<open>computeInit\<close>, one definition per local constant\<close>

definition init_seed :: "nat \<Rightarrow> real" where
  "init_seed idx = real idx"

definition init_radius :: "helpers \<Rightarrow> galaxy_uniforms \<Rightarrow> real \<Rightarrow> real" where
  "init_radius H G seed = (hash H (seed + 1) powr 0.5) * radius G"

definition init_normalizedRadius :: "helpers \<Rightarrow> galaxy_uniforms \<Rightarrow> real \<Rightarrow> real" where
  "init_normalizedRadius H G seed = init_radius H G seed / radius G"

definition init_armIndex :: "helpers \<Rightarrow> galaxy_uniforms \<Rightarrow> real \<Rightarrow> real" where
  "init_armIndex H G seed = of_int \<lfloor>hash H (seed + 2) * armCount G\<rfloor>"

definition init_armAngle :: "helpers \<Rightarrow> galaxy_uniforms \<Rightarrow> real \<Rightarrow> real" where
  "init_armAngle H G seed = init_armIndex H G seed * 6.28318 / armCount G"

definition init_spiralAngle :: "helpers \<Rightarrow> galaxy_uniforms \<Rightarrow> real \<Rightarrow> real" where
  "init_spiralAngle H G seed = init_normalizedRadius H G seed * spiralTightness G * 6.28318"

definition init_angleOffset :: "helpers \<Rightarrow> galaxy_uniforms \<Rightarrow> real \<Rightarrow> real" where
  "init_angleOffset H G seed = (hash H (seed + 3) - 0.5) * randomness G"

definition init_radiusOffset :: "helpers \<Rightarrow> galaxy_uniforms \<Rightarrow> real \<Rightarrow> real" where
  "init_radiusOffset H G seed = (hash H (seed + 4) - 0.5) * armWidth G"

definition init_angle :: "helpers \<Rightarrow> galaxy_uniforms \<Rightarrow> real \<Rightarrow> real" where
  "init_angle H G seed =
     init_armAngle H G seed + init_spiralAngle H G seed + init_angleOffset H G seed"

definition init_offsetRadius :: "helpers \<Rightarrow> galaxy_uniforms \<Rightarrow> real \<Rightarrow> real" where
  "init_offsetRadius H G seed = init_radius H G seed + init_radiusOffset H G seed"

definition init_x :: "helpers \<Rightarrow> galaxy_uniforms \<Rightarrow> real \<Rightarrow> real" where
  "init_x H G seed = cos (init_angle H G seed) * init_offsetRadius H G seed"

definition init_z :: "helpers \<Rightarrow> galaxy_uniforms \<Rightarrow> real \<Rightarrow> real" where
  "init_z H G seed = sin (init_angle H G seed) * init_offsetRadius H G seed"

definition init_thicknessFactor :: "helpers \<Rightarrow> galaxy_uniforms \<Rightarrow> real \<Rightarrow> real" where
  "init_thicknessFactor H G seed = 1.0 - init_normalizedRadius H G seed + 0.2"

definition init_y :: "helpers \<Rightarrow> galaxy_uniforms \<Rightarrow> real \<Rightarrow> real" where
  "init_y H G seed =
     (hash H (seed + 5) - 0.5) * thickness G * init_thicknessFactor H G seed"

definition init_position :: "helpers \<Rightarrow> galaxy_uniforms \<Rightarrow> real \<Rightarrow> vec3" where
  "init_position H G seed = Vec3 (init_x H G seed) (init_y H G seed) (init_z H G seed)"

definition init_orbitalSpeed :: "helpers \<Rightarrow> galaxy_uniforms \<Rightarrow> real \<Rightarrow> real" where
  "init_orbitalSpeed H G seed = 1.0 / (init_offsetRadius H G seed + 0.5) * 5.0"

definition init_velocity :: "helpers \<Rightarrow> galaxy_uniforms \<Rightarrow> real \<Rightarrow> vec3" where
  "init_velocity H G seed =
     Vec3 (- (sin (init_angle H G seed) * init_orbitalSpeed H G seed))
          0
          (cos (init_angle H G seed) * init_orbitalSpeed H G seed)"

definition init_radialSparsity :: "helpers \<Rightarrow> galaxy_uniforms \<Rightarrow> real \<Rightarrow> real" where
  "init_radialSparsity H G seed =
     \<bar>init_radiusOffset H G seed\<bar> / (armWidth G * 0.5 + 0.01)"

definition init_angularSparsity :: "helpers \<Rightarrow> galaxy_uniforms \<Rightarrow> real \<Rightarrow> real" where
  "init_angularSparsity H G seed =
     \<bar>init_angleOffset H G seed\<bar> / (randomness G * 0.5 + 0.01)"

definition init_sparsityFactor :: "helpers \<Rightarrow> galaxy_uniforms \<Rightarrow> real \<Rightarrow> real" where
  "init_sparsityFactor H G seed =
     min ((init_radialSparsity H G seed + init_angularSparsity H G seed) * 0.5) 1.0"

text \<open>
  The dispatch \<^verbatim>\<open>computeInit\<close> \<open>=\<close> \<^verbatim>\<open>Fn(...)().compute(this.COUNT)\<close>: invocation \<open>idx\<close> assigns
  element \<open>idx\<close> of the four star buffers, which \<^verbatim>\<open>createGalaxySystem\<close> allocated with
  \<^verbatim>\<open>COUNT\<close> elements each. The position is assigned to the spawn buffer and to the original
  buffer.
\<close>

definition computeInit :: "helpers \<Rightarrow> sim \<Rightarrow> sim" where
  "computeInit H s =
     (let G = galaxy (unis s); idxs = [0..<COUNT s] in
      s\<lparr>spawnPositionBuffer := map (\<lambda>idx. init_position H G (init_seed idx)) idxs,
        originalPositionBuffer := map (\<lambda>idx. init_position H G (init_seed idx)) idxs,
        velocityBuffer := map (\<lambda>idx. init_velocity H G (init_seed idx)) idxs,
        densityFactorBuffer := map (\<lambda>idx. init_sparsityFactor H G (init_seed idx)) idxs\<rparr>)"

subsection \<open>Clouds: the body of \<^verbatim>\<open>cloudInit\<close>\<close>

definition cloud_seed :: "nat \<Rightarrow> real" where
  "cloud_seed idx = real idx + 10000"

definition cloud_radius :: "helpers \<Rightarrow> galaxy_uniforms \<Rightarrow> real \<Rightarrow> real" where
  "cloud_radius H G seed = (hash H (seed + 1) powr 0.7) * radius G"

definition cloud_normalizedRadius :: "helpers \<Rightarrow> galaxy_uniforms \<Rightarrow> real \<Rightarrow> real" where
  "cloud_normalizedRadius H G seed = cloud_radius H G seed / radius G"

definition cloud_angle :: "helpers \<Rightarrow> galaxy_uniforms \<Rightarrow> real \<Rightarrow> real" where
  "cloud_angle H G seed =
     (let armIndex = of_int \<lfloor>hash H (seed + 2) * armCount G\<rfloor>;
          armAngle = armIndex * 6.28318 / armCount G;
          spiralAngle = cloud_normalizedRadius H G seed * spiralTightness G * 6.28318;
          angleOffset = (hash H (seed + 3) - 0.5) * randomness G
      in armAngle + spiralAngle + angleOffset)"

definition cloud_offsetRadius :: "helpers \<Rightarrow> galaxy_uniforms \<Rightarrow> real \<Rightarrow> real" where
  "cloud_offsetRadius H G seed =
     (let radiusOffset = (hash H (seed + 4) - 0.5) * armWidth G
      in cloud_radius H G seed + radiusOffset)"

definition cloud_position :: "helpers \<Rightarrow> galaxy_uniforms \<Rightarrow> real \<Rightarrow> vec3" where
  "cloud_position H G seed =
     (let x = cos (cloud_angle H G seed) * cloud_offsetRadius H G seed;
          z = sin (cloud_angle H G seed) * cloud_offsetRadius H G seed;
          thicknessFactor = 1.0 - cloud_normalizedRadius H G seed + 0.15;
          y = (hash H (seed + 5) - 0.5) * thickness G * thicknessFactor
      in Vec3 x y z)"

definition cloud_colorSize :: "helpers \<Rightarrow> uniforms \<Rightarrow> real \<Rightarrow> vec4" where
  "cloud_colorSize H U seed =
     (let tintColor = cloudTintColor (visual U);
          cloudColor = vec_mul tintColor (1.0 - cloud_normalizedRadius H (galaxy U) seed * 0.3);
          densityFactor = 1.0 - cloud_normalizedRadius H (galaxy U) seed * 0.5;
          size = (hash H (seed + 6) * 0.5 + 0.7) * densityFactor
      in Vec4 (vec_x cloudColor) (vec_y cloudColor) (vec_z cloudColor) size)"

definition cloud_rotation :: "helpers \<Rightarrow> real \<Rightarrow> real" where
  "cloud_rotation H seed = hash H (seed + 7) * 6.28318"

definition cloudInit_run :: "helpers \<Rightarrow> uniforms \<Rightarrow> cloud_system \<Rightarrow> cloud_system" where
  "cloudInit_run H U c =
     (let idxs = [0..<CLOUD_COUNT c] in
      c\<lparr>cloudPositionBuffer := map (\<lambda>idx. cloud_position H (galaxy U) (cloud_seed idx)) idxs,
        cloudOriginalPositionBuffer :=
          map (\<lambda>idx. cloud_position H (galaxy U) (cloud_seed idx)) idxs,
        cloudColorSizeBuffer := map (\<lambda>idx. cloud_colorSize H U (cloud_seed idx)) idxs,
        cloudRotationBuffer := map (\<lambda>idx. cloud_rotation H (cloud_seed idx)) idxs\<rparr>)"

text \<open>Running \<^verbatim>\<open>this.cloudInit\<close> on the simulation; nothing runs while it is \<^verbatim>\<open>null\<close>.\<close>

definition cloudInit :: "helpers \<Rightarrow> sim \<Rightarrow> sim" where
  "cloudInit H s =
     (case clouds s of
        None \<Rightarrow> s
      | Some c \<Rightarrow> s\<lparr>clouds := Some (cloudInit_run H (unis s) c)\<rparr>)"

section \<open>Per-frame kernels\<close>

text \<open>
  The bodies of \<^verbatim>\<open>computeUpdate\<close> and \<^verbatim>\<open>cloudUpdate\<close> are the same statements on different
  buffers; they differ only in the strength handed to \<^verbatim>\<open>applySpringForce\<close>
  (\<^verbatim>\<open>float(2.0)\<close> for stars, \<^verbatim>\<open>float(1.0)\<close> for clouds). Each local constant of the body is
  one definition, and denotes the value its expression has where it is declared. The
  arguments \<open>position\<close> and \<open>originalPos\<close> are the two buffer elements of the invocation as
  they are when the kernel starts.
\<close>

definition update_rotatedPos :: "helpers \<Rightarrow> compute_uniforms \<Rightarrow> vec3 \<Rightarrow> vec3" where
  "update_rotatedPos H C position =
     applyDifferentialRotation H position (rotationSpeed C) (deltaTime C)"

definition update_rotatedOriginal :: "helpers \<Rightarrow> compute_uniforms \<Rightarrow> vec3 \<Rightarrow> vec3" where
  "update_rotatedOriginal H C originalPos =
     applyDifferentialRotation H originalPos (rotationSpeed C) (deltaTime C)"

text \<open>
  The local \<^verbatim>\<open>mouseForce\<close>: the pointer force is evaluated at the position variable after
  \<^verbatim>\<open>position.assign(rotatedPos)\<close>.
\<close>

definition update_mouseForce :: "helpers \<Rightarrow> compute_uniforms \<Rightarrow> vec3 \<Rightarrow> vec3" where
  "update_mouseForce H C position =
     applyMouseForce H (update_rotatedPos H C position)
       (mouse C) (mouseActive C) (mouseForce C) (mouseRadius C) (deltaTime C)"

text \<open>
  The local \<^verbatim>\<open>springForce\<close>: evaluated at the position variable after
  \<^verbatim>\<open>position.addAssign(mouseForce)\<close>, towards \<^verbatim>\<open>rotatedOriginal\<close>.
\<close>

definition update_springForce ::
  "helpers \<Rightarrow> compute_uniforms \<Rightarrow> real \<Rightarrow> vec3 \<Rightarrow> vec3 \<Rightarrow> vec3" where
  "update_springForce H C strength position originalPos =
     applySpringForce H
       (vec_add (update_rotatedPos H C position) (update_mouseForce H C position))
       (update_rotatedOriginal H C originalPos) strength (deltaTime C)"

text \<open>The value of the position variable when it is stored back into the buffer.\<close>

definition update_position ::
  "helpers \<Rightarrow> compute_uniforms \<Rightarrow> real \<Rightarrow> vec3 \<Rightarrow> vec3 \<Rightarrow> vec3" where
  "update_position H C strength position originalPos =
     vec_add (vec_add (update_rotatedPos H C position) (update_mouseForce H C position))
       (update_springForce H C strength position originalPos)"

definition computeUpdate :: "helpers \<Rightarrow> sim \<Rightarrow> sim" where
  "computeUpdate H s =
     (let C = compute (unis s); idxs = [0..<COUNT s] in
      s\<lparr>spawnPositionBuffer :=
          map (\<lambda>idx. update_position H C 2.0
                 (spawnPositionBuffer s ! idx) (originalPositionBuffer s ! idx)) idxs,
        originalPositionBuffer :=
          map (\<lambda>idx. update_rotatedOriginal H C (originalPositionBuffer s ! idx)) idxs\<rparr>)"

definition cloudUpdate_run :: "helpers \<Rightarrow> compute_uniforms \<Rightarrow> cloud_system \<Rightarrow> cloud_system" where
  "cloudUpdate_run H C c =
     (let idxs = [0..<CLOUD_COUNT c] in
      c\<lparr>cloudPositionBuffer :=
          map (\<lambda>idx. update_position H C 1.0
                 (cloudPositionBuffer c ! idx) (cloudOriginalPositionBuffer c ! idx)) idxs,
        cloudOriginalPositionBuffer :=
          map (\<lambda>idx. update_rotatedOriginal H C (cloudOriginalPositionBuffer c ! idx)) idxs\<rparr>)"

definition cloudUpdate :: "helpers \<Rightarrow> sim \<Rightarrow> sim" where
  "cloudUpdate H s =
     (case clouds s of
        None \<Rightarrow> s
      | Some c \<Rightarrow> s\<lparr>clouds := Some (cloudUpdate_run H (compute (unis s)) c)\<rparr>)"

section \<open>Controller\<close>

text \<open>
  \<^verbatim>\<open>instancedArray(n, type)\<close> allocates a zero-filled buffer of \<open>n\<close> elements.
  \<^verbatim>\<open>createGalaxySystem\<close> replaces the four star buffers and both star kernels, and leaves
  \<^verbatim>\<open>this.initialized\<close> as it is; scene objects and materials are not modelled.
\<close>

definition createGalaxySystem :: "sim \<Rightarrow> sim" where
  "createGalaxySystem s =
     s\<lparr>spawnPositionBuffer := replicate (COUNT s) vec_zero,
       originalPositionBuffer := replicate (COUNT s) vec_zero,
       velocityBuffer := replicate (COUNT s) vec_zero,
       densityFactorBuffer := replicate (COUNT s) 0\<rparr>"

definition createClouds :: "sim \<Rightarrow> sim" where
  "createClouds s =
     s\<lparr>clouds := Some \<lparr>CLOUD_COUNT = config_cloudCount s,
                       cloudPositionBuffer = replicate (config_cloudCount s) vec_zero,
                       cloudOriginalPositionBuffer = replicate (config_cloudCount s) vec_zero,
                       cloudColorSizeBuffer = replicate (config_cloudCount s) (Vec4 0 0 0 0),
                       cloudRotationBuffer = replicate (config_cloudCount s) 0\<rparr>,
       cloudInitialized := False\<rparr>"

text \<open>
  \<^verbatim>\<open>updateStarCount\<close> also writes \<^verbatim>\<open>this.config.starCount\<close>, which the simulation never reads
  again; it is not a field of the model.
\<close>

definition updateStarCount :: "nat \<Rightarrow> sim \<Rightarrow> sim" where
  "updateStarCount newCount s = (createGalaxySystem (s\<lparr>COUNT := newCount\<rparr>))\<lparr>initialized := False\<rparr>"

definition regenerate :: "sim \<Rightarrow> sim" where
  "regenerate s = s\<lparr>initialized := False, cloudInitialized := False\<rparr>"

text \<open>
  The renderer is the log of the kernels handed to \<^verbatim>\<open>renderer.computeAsync\<close>, oldest first;
  \<^verbatim>\<open>update\<close> awaits every dispatch before its next statement, so a dispatch is one step.
\<close>

datatype kernel = ComputeInit | CloudInit | ComputeUpdate | CloudUpdate

fun run_kernel :: "helpers \<Rightarrow> kernel \<Rightarrow> sim \<Rightarrow> sim" where
  "run_kernel H ComputeInit s = computeInit H s"
| "run_kernel H CloudInit s = cloudInit H s"
| "run_kernel H ComputeUpdate s = computeUpdate H s"
| "run_kernel H CloudUpdate s = cloudUpdate H s"

definition computeAsync :: "helpers \<Rightarrow> kernel \<Rightarrow> kernel list \<times> sim \<Rightarrow> kernel list \<times> sim" where
  "computeAsync H k rs = (fst rs @ [k], run_kernel H k (snd rs))"

text \<open>
  \<^verbatim>\<open>update\<close> in three parts, in the order of its statements: the two guarded generation
  dispatches, the four uniform assignments, the two physics dispatches.
\<close>

definition update_generation :: "helpers \<Rightarrow> kernel list \<times> sim \<Rightarrow> kernel list \<times> sim" where
  "update_generation H rs =
     (let rs1 = (if \<not> initialized (snd rs)
                 then (let rs' = computeAsync H ComputeInit rs
                       in (fst rs', (snd rs')\<lparr>initialized := True\<rparr>))
                 else rs)
      in if \<not> cloudInitialized (snd rs1) \<and> clouds (snd rs1) \<noteq> None
         then (let rs' = computeAsync H CloudInit rs1
               in (fst rs', (snd rs')\<lparr>cloudInitialized := True\<rparr>))
         else rs1)"

definition update_uniforms :: "real \<Rightarrow> vec3 \<Rightarrow> bool \<Rightarrow> sim \<Rightarrow> sim" where
  "update_uniforms dt mouse3D mousePressed s =
     s\<lparr>unis := (unis s)\<lparr>compute := (compute (unis s))
          \<lparr>time := time (compute (unis s)) + dt,
           deltaTime := dt,
           mouse := mouse3D,
           mouseActive := (if mousePressed then 1.0 else 0.0)\<rparr>\<rparr>\<rparr>"

definition update_physics :: "helpers \<Rightarrow> kernel list \<times> sim \<Rightarrow> kernel list \<times> sim" where
  "update_physics H rs =
     (let rs1 = computeAsync H ComputeUpdate rs
      in if clouds (snd rs1) \<noteq> None then computeAsync H CloudUpdate rs1 else rs1)"

definition update ::
  "helpers \<Rightarrow> real \<Rightarrow> vec3 \<Rightarrow> bool \<Rightarrow> kernel list \<times> sim \<Rightarrow> kernel list \<times> sim" where
  "update H dt mouse3D mousePressed rs =
     (let rs1 = update_generation H rs
      in update_physics H (fst rs1, update_uniforms dt mouse3D mousePressed (snd rs1)))"

text \<open>
  One frame of \<^verbatim>\<open>animate\<close> in \<^verbatim>\<open>main.js\<close>: \<open>currentTime\<close> is the reading of
  \<^verbatim>\<open>performance.now()\<close> in milliseconds, \<open>lastFrameTime\<close> the reading of the previous frame.
  Camera controls, rendering and the FPS counter are not modelled.
\<close>

definition frame_deltaTime :: "real \<Rightarrow> real \<Rightarrow> real" where
  "frame_deltaTime currentTime lastFrameTime = min ((currentTime - lastFrameTime) / 1000) 0.033"

definition animate ::
  "helpers \<Rightarrow> real \<Rightarrow> vec3 \<Rightarrow> bool \<Rightarrow> real \<times> kernel list \<times> sim \<Rightarrow> real \<times> kernel list \<times> sim" where
  "animate H currentTime mouse3D mousePressed st =
     (let lastFrameTime = fst st;
          dt = frame_deltaTime currentTime lastFrameTime
      in (currentTime, update H dt mouse3D mousePressed (snd st)))"

text \<open>
  The configuration object of \<^verbatim>\<open>main.js\<close>, restricted to the entries the constructor of
  \<^verbatim>\<open>GalaxySimulation\<close> reads; colours are taken as already parsed.
\<close>

record config =
  cfg_starCount :: nat
  cfg_rotationSpeed :: real
  cfg_spiralTightness :: real
  cfg_mouseForce :: real
  cfg_mouseRadius :: real
  cfg_galaxyRadius :: real
  cfg_galaxyThickness :: real
  cfg_armCount :: real
  cfg_armWidth :: real
  cfg_randomness :: real
  cfg_particleSize :: real
  cfg_starBrightness :: real
  cfg_denseStarColor :: vec3
  cfg_sparseStarColor :: vec3
  cfg_cloudCount :: nat
  cfg_cloudSize :: real
  cfg_cloudOpacity :: real
  cfg_cloudTintColor :: vec3

text \<open>
  \<^verbatim>\<open>initializeUniforms\<close>; \<^verbatim>\<open>config.galaxyThickness || 0.1\<close> replaces a thickness of zero by
  \<open>0.1\<close>.
\<close>

definition initializeUniforms :: "config \<Rightarrow> uniforms" where
  "initializeUniforms cfg =
     \<lparr>compute = \<lparr>time = 0, deltaTime = 0.016, mouse = Vec3 0 0 0, mouseActive = 0.0,
                  mouseForce = cfg_mouseForce cfg, mouseRadius = cfg_mouseRadius cfg,
                  rotationSpeed = cfg_rotationSpeed cfg\<rparr>,
      galaxy = \<lparr>radius = cfg_galaxyRadius cfg,
                 thickness = (if cfg_galaxyThickness cfg = 0 then 0.1 else cfg_galaxyThickness cfg),
                 spiralTightness = cfg_spiralTightness cfg, armCount = cfg_armCount cfg,
                 armWidth = cfg_armWidth cfg, randomness = cfg_randomness cfg\<rparr>,
      visual = \<lparr>particleSize = cfg_particleSize cfg, cloudSize = cfg_cloudSize cfg,
                 cloudOpacity = cfg_cloudOpacity cfg, starBrightness = cfg_starBrightness cfg,
                 denseStarColor = cfg_denseStarColor cfg,
                 sparseStarColor = cfg_sparseStarColor cfg,
                 cloudTintColor = cfg_cloudTintColor cfg\<rparr>\<rparr>"

text \<open>The constructor: no buffers yet, no cloud kernels, both flags false.\<close>

definition construct :: "config \<Rightarrow> sim" where
  "construct cfg =
     \<lparr>COUNT = cfg_starCount cfg, config_cloudCount = cfg_cloudCount cfg,
      unis = initializeUniforms cfg,
      spawnPositionBuffer = [], originalPositionBuffer = [], velocityBuffer = [],
      densityFactorBuffer = [], clouds = None,
      initialized = False, cloudInitialized = False\<rparr>"

text \<open>
  The set-up of \<^verbatim>\<open>main.js\<close>: \<^verbatim>\<open>new GalaxySimulation(scene, config, cloudTexture)\<close>, then
  \<^verbatim>\<open>createGalaxySystem()\<close>, then \<^verbatim>\<open>createClouds()\<close>.
\<close>

definition main_init :: "config \<Rightarrow> sim" where
  "main_init cfg = createClouds (createGalaxySystem (construct cfg))"

section \<open>Commands and the generation epochs\<close>

text \<open>
  The calls that \<^verbatim>\<open>main.js\<close> makes on a running simulation. Each command is applied at a
  frame boundary, that is, never between two statements of an \<^verbatim>\<open>update\<close> in progress.
  \<open>exec\<close> returns the kernels the command dispatched, in order, and the new state.
\<close>

datatype command =
  Update real vec3 bool
| Regenerate
| UpdateStarCount nat
| CreateClouds

fun exec :: "helpers \<Rightarrow> command \<Rightarrow> sim \<Rightarrow> kernel list \<times> sim" where
  "exec H (Update dt mouse3D mousePressed) s = update H dt mouse3D mousePressed ([], s)"
| "exec H Regenerate s = ([], regenerate s)"
| "exec H (UpdateStarCount newCount) s = ([], updateStarCount newCount s)"
| "exec H CreateClouds s = ([], createClouds s)"

text \<open>
  Bookkeeping that is not in the program: for each subsystem, whether its generation kernel
  has run since the subsystem's current epoch began. A pair \<open>(stars, clouds)\<close>; \<open>False\<close> is the
  state the spec calls Uninitialized. An epoch begins with \<^verbatim>\<open>regenerate()\<close> (both subsystems),
  with a change of the star count (stars: fresh buffers) and with \<^verbatim>\<open>createClouds()\<close> (clouds:
  fresh buffers).
\<close>

fun begin_epoch :: "command \<Rightarrow> bool \<times> bool \<Rightarrow> bool \<times> bool" where
  "begin_epoch Regenerate (sg, cg) = (False, False)"
| "begin_epoch (UpdateStarCount newCount) (sg, cg) = (False, cg)"
| "begin_epoch CreateClouds (sg, cg) = (sg, False)"
| "begin_epoch (Update dt mouse3D mousePressed) (sg, cg) = (sg, cg)"

text \<open>
  \<open>observe\<close> replays a list of dispatches against the bookkeeping: a generation kernel marks
  its subsystem generated, a physics kernel on a subsystem that is not generated is a
  violation (\<open>None\<close>).
\<close>

fun observe :: "kernel list \<Rightarrow> bool \<times> bool \<Rightarrow> (bool \<times> bool) option" where
  "observe [] e = Some e"
| "observe (ComputeInit # ks) (sg, cg) = observe ks (True, cg)"
| "observe (CloudInit # ks) (sg, cg) = observe ks (sg, True)"
| "observe (ComputeUpdate # ks) (sg, cg) = (if sg then observe ks (sg, cg) else None)"
| "observe (CloudUpdate # ks) (sg, cg) = (if cg then observe ks (sg, cg) else None)"

text \<open>A run of commands is safe when no dispatch of the run is a violation.\<close>

fun safe_run :: "helpers \<Rightarrow> command list \<Rightarrow> sim \<Rightarrow> bool \<times> bool \<Rightarrow> bool" where
  "safe_run H [] s e = True"
| "safe_run H (c # cs) s e =
     (case observe (fst (exec H c s)) (begin_epoch c e) of
        None \<Rightarrow> False
      | Some e' \<Rightarrow> safe_run H cs (snd (exec H c s)) e')"

section \<open>The helpers as the specification describes them\<close>

text \<open>Rotation of a point about the vertical (\<open>y\<close>) axis, and its distance from that axis.\<close>

fun rotateY :: "real \<Rightarrow> vec3 \<Rightarrow> vec3" where
  "rotateY a (Vec3 x y z) = Vec3 (x * cos a - z * sin a) y (x * sin a + z * cos a)"

fun axisDistance :: "vec3 \<Rightarrow> real" where
  "axisDistance (Vec3 x y z) = sqrt (x * x + z * z)"

text \<open>
  Modelled from the spec: \<^verbatim>\<open>applyDifferentialRotation\<close> of \<^verbatim>\<open>helpers.js\<close>, which is not among
  the sources. Section 4.3, step 1: the point is rotated about the vertical axis by an angle
  that depends on the rotation speed, the time step and the point's current distance from
  the axis. The spec gives no formula for the angle; it is the parameter \<open>rotationAngle\<close>.
\<close>

definition spec_applyDifferentialRotation ::
  "(real \<Rightarrow> real \<Rightarrow> real \<Rightarrow> real) \<Rightarrow> vec3 \<Rightarrow> real \<Rightarrow> real \<Rightarrow> vec3" where
  "spec_applyDifferentialRotation rotationAngle pos rotSpeed dt =
     rotateY (rotationAngle rotSpeed dt (axisDistance pos)) pos"

text \<open>
  Modelled from the spec: \<^verbatim>\<open>applyMouseForce\<close> of \<^verbatim>\<open>helpers.js\<close>, which is not among the
  sources. Section 4.3, step 2: if the pointer is active and the vector from the pointer to
  the position is shorter than the radius, a displacement along that vector scaled by the
  force, the time step and a falloff with distance; otherwise the zero vector. The pointer
  is active when the flag, which \<^verbatim>\<open>update\<close> sets to \<open>1\<close> or \<open>0\<close>, is not \<open>0\<close>. The spec gives no
  formula for the falloff; it is the parameter \<open>falloff\<close>.
\<close>

definition spec_applyMouseForce ::
  "(real \<Rightarrow> real \<Rightarrow> real) \<Rightarrow> vec3 \<Rightarrow> vec3 \<Rightarrow> real \<Rightarrow> real \<Rightarrow> real \<Rightarrow> real \<Rightarrow> vec3" where
  "spec_applyMouseForce falloff position pointer active force rad dt =
     (let toParticle = vec_sub position pointer;
          d = vec_length toParticle
      in if active \<noteq> 0 \<and> d < rad
         then vec_mul toParticle (force * dt * falloff d rad)
         else vec_zero)"

text \<open>
  Modelled from the spec: \<^verbatim>\<open>applySpringForce\<close> of \<^verbatim>\<open>helpers.js\<close>, which is not among the
  sources. Section 4.3, step 3: a displacement towards the target, scaled by the stiffness
  and the time step, with no velocity term.
\<close>

definition spec_applySpringForce :: "vec3 \<Rightarrow> vec3 \<Rightarrow> real \<Rightarrow> real \<Rightarrow> vec3" where
  "spec_applySpringForce currentPos targetPos strength dt =
     vec_mul (vec_sub targetPos currentPos) (strength * dt)"

definition spec_helpers ::
  "(real \<Rightarrow> real) \<Rightarrow> (real \<Rightarrow> real \<Rightarrow> real \<Rightarrow> real) \<Rightarrow> (real \<Rightarrow> real \<Rightarrow> real) \<Rightarrow> helpers" where
  "spec_helpers h rotationAngle falloff =
     \<lparr>hash = h,
      applyDifferentialRotation = spec_applyDifferentialRotation rotationAngle,
      applyMouseForce = spec_applyMouseForce falloff,
      applySpringForce = spec_applySpringForce\<rparr>"

text \<open>
  The sparsity factor in the words of the spec (Section 4.2, step 10), to be compared with
  \<open>init_sparsityFactor\<close>.
\<close>

definition clamp :: "real \<Rightarrow> real \<Rightarrow> real \<Rightarrow> real" where
  "clamp v lo hi = min (max v lo) hi"

definition spec_sparsityFactor :: "real \<Rightarrow> real \<Rightarrow> real \<Rightarrow> real \<Rightarrow> real \<Rightarrow> real" where
  "spec_sparsityFactor radiusOffset angleOffset aw rnd eps =
     clamp ((\<bar>radiusOffset\<bar> / (aw / 2 + eps) + \<bar>angleOffset\<bar> / (rnd / 2 + eps)) / 2) 0 1"

section \<open>Concrete inputs\<close>

text \<open>
  One instance of what the spec leaves open, for evaluating statements at concrete inputs:
  a hash with values in \<open>[0, 1)\<close>, a rotation angle that decreases with the distance from
  the axis, and a falloff that vanishes at the radius.
\<close>

definition sample_hash :: "real \<Rightarrow> real" where
  "sample_hash seed = frac (seed / 4)"

definition sample_rotationAngle :: "real \<Rightarrow> real \<Rightarrow> real \<Rightarrow> real" where
  "sample_rotationAngle rotSpeed dt d = rotSpeed * dt / (1 + d)"

definition sample_falloff :: "real \<Rightarrow> real \<Rightarrow> real" where
  "sample_falloff d rad = 1 - d / rad"

definition sample_helpers :: helpers where
  "sample_helpers = spec_helpers sample_hash sample_rotationAngle sample_falloff"

text \<open>The configuration of \<^verbatim>\<open>main.js\<close>, with three stars and two clouds.\<close>

definition small_config :: config where
  "small_config =
     \<lparr>cfg_starCount = 3, cfg_rotationSpeed = 0.12, cfg_spiralTightness = 1.5,
      cfg_mouseForce = 6.0, cfg_mouseRadius = 5.0, cfg_galaxyRadius = 13.0,
      cfg_galaxyThickness = 6, cfg_armCount = 2, cfg_armWidth = 2.25,
      cfg_randomness = 1.85, cfg_particleSize = 0.04, cfg_starBrightness = 0.3,
      cfg_denseStarColor = Vec3 0 0 1, cfg_sparseStarColor = Vec3 1 0 0,
      cfg_cloudCount = 2, cfg_cloudSize = 2.2, cfg_cloudOpacity = 0.01,
      cfg_cloudTintColor = Vec3 1 1 1\<rparr>"

text \<open>The small configuration with the arm width and the randomness set to zero.\<close>

definition scenario_config :: config where
  "scenario_config = small_config\<lparr>cfg_armWidth := 0, cfg_randomness := 0\<rparr>"

text \<open>The shape parameters of the scenario of Section 8: two arms, no jitter.\<close>

definition scenario_galaxy :: galaxy_uniforms where
  "scenario_galaxy =
     \<lparr>radius = 13, thickness = 6, spiralTightness = 1.5, armCount = 2,
      armWidth = 0, randomness = 0\<rparr>"

text \<open>Pointer pressed seven units above the galactic centre, with radius five.\<close>

definition pointer_above :: compute_uniforms where
  "pointer_above =
     \<lparr>time = 0, deltaTime = 0.016, mouse = Vec3 0 7 0, mouseActive = 1.0,
      mouseForce = 10, mouseRadius = 5, rotationSpeed = 0.12\<rparr>"


section \<open>Invariant of the controller\<close>

text \<open>
  The two flags of the controller never claim more than the bookkeeping of the epochs
  records: a flag that is set means the subsystem's generation kernel has run in the
  current epoch.
\<close>

definition flags_sound :: "sim \<Rightarrow> bool \<times> bool \<Rightarrow> bool" where
  "flags_sound s e = ((initialized s \<longrightarrow> fst e) \<and> (cloudInitialized s \<longrightarrow> snd e))"

section \<open>One particle over several frames\<close>

text \<open>
  What one invocation of a per-frame kernel stores for its particle, as a function of the
  pair (position, anchor) it reads: \<^verbatim>\<open>computeUpdate\<close> with strength \<open>2\<close>, \<^verbatim>\<open>cloudUpdate\<close> with
  strength \<open>1\<close>.
\<close>

definition particle_step ::
  "helpers \<Rightarrow> compute_uniforms \<Rightarrow> real \<Rightarrow> vec3 \<times> vec3 \<Rightarrow> vec3 \<times> vec3" where
  "particle_step H C strength pa =
     (update_position H C strength (fst pa) (snd pa), update_rotatedOriginal H C (snd pa))"

text \<open>
  The pairs a particle goes through in consecutive frames, the first being the pair it
  starts from; each frame has its own compute uniforms, which \<^verbatim>\<open>update\<close> writes before it
  dispatches the kernel.
\<close>

fun trajectory ::
  "helpers \<Rightarrow> real \<Rightarrow> compute_uniforms list \<Rightarrow> vec3 \<times> vec3 \<Rightarrow> (vec3 \<times> vec3) list" where
  "trajectory H strength [] pa = [pa]"
| "trajectory H strength (C # Cs) pa = pa # trajectory H strength Cs (particle_step H C strength pa)"

text \<open>The distance between position and anchor.\<close>

definition separation :: "vec3 \<times> vec3 \<Rightarrow> real" where
  "separation pa = distance (fst pa) (snd pa)"

text \<open>A list of reals in which no element exceeds its predecessor.\<close>

fun non_increasing :: "real list \<Rightarrow> bool" where
  "non_increasing (x # y # ys) = (y \<le> x \<and> non_increasing (y # ys))"
| "non_increasing [x] = True"
| "non_increasing [] = True"

text \<open>
  A frame in which the pointer is not pressed and the time step lies between \<open>0\<close> and \<open>1\<close>
  second; \<^verbatim>\<open>animate\<close> passes time steps of at most \<open>0.033\<close>.
\<close>

definition calm_frame :: "compute_uniforms \<Rightarrow> bool" where
  "calm_frame C = (mouseActive C = 0 \<and> 0 \<le> deltaTime C \<and> deltaTime C \<le> 1)"

text \<open>
  The premise of the relaxation property in Section 8 of the spec, "the rotation term which
  moves both equally": in every frame of the run, the rotation turns the position and the
  anchor through the same angle. \<open>rotationAngle\<close> is the angle of the rotation helper as
  the spec describes it.
\<close>

fun moved_equally ::
  "(real \<Rightarrow> real \<Rightarrow> real \<Rightarrow> real) \<Rightarrow> helpers \<Rightarrow> real \<Rightarrow> compute_uniforms list
     \<Rightarrow> vec3 \<times> vec3 \<Rightarrow> bool" where
  "moved_equally rotationAngle H strength [] pa = True"
| "moved_equally rotationAngle H strength (C # Cs) pa =
     (rotationAngle (rotationSpeed C) (deltaTime C) (axisDistance (fst pa))
        = rotationAngle (rotationSpeed C) (deltaTime C) (axisDistance (snd pa))
      \<and> moved_equally rotationAngle H strength Cs (particle_step H C strength pa))"

section \<open>Basic facts about the kernels and the controller\<close>

lemma unis_kernels [simp]:
  "unis (computeInit H s) = unis s"
  "unis (cloudInit H s) = unis s"
  "unis (computeUpdate H s) = unis s"
  "unis (cloudUpdate H s) = unis s"
  by (simp_all add: computeInit_def cloudInit_def computeUpdate_def cloudUpdate_def Let_def
      split: option.split)

lemma unis_run_kernel [simp]: "unis (run_kernel H k s) = unis s"
  by (cases k) simp_all

lemma unis_computeAsync [simp]: "unis (snd (computeAsync H k rs)) = unis (snd rs)"
  by (simp add: computeAsync_def)

lemma unis_update_generation [simp]: "unis (snd (update_generation H rs)) = unis (snd rs)"
  by (simp add: update_generation_def Let_def)

lemma unis_update_physics [simp]: "unis (snd (update_physics H rs)) = unis (snd rs)"
  by (simp add: update_physics_def Let_def)

lemma compute_after_update:
  "compute (unis (snd (update H dt mouse3D mousePressed rs)))
     = (compute (unis (snd rs)))\<lparr>time := time (compute (unis (snd rs))) + dt, deltaTime := dt,
          mouse := mouse3D, mouseActive := (if mousePressed then 1.0 else 0.0)\<rparr>"
  by (simp add: update_def Let_def update_uniforms_def)

lemma small_COUNT: "COUNT (main_init small_config) = 3"
  by (simp add: main_init_def createClouds_def createGalaxySystem_def construct_def
      small_config_def)

lemma small_clouds:
  "clouds (main_init small_config) =
     Some \<lparr>CLOUD_COUNT = 2,
           cloudPositionBuffer = replicate 2 vec_zero,
           cloudOriginalPositionBuffer = replicate 2 vec_zero,
           cloudColorSizeBuffer = replicate 2 (Vec4 0 0 0 0),
           cloudRotationBuffer = replicate 2 0\<rparr>"
  by (simp add: main_init_def createClouds_def createGalaxySystem_def construct_def
      small_config_def)

lemma vec_length_sub_commute: "vec_length (vec_sub p q) = vec_length (vec_sub q p)"
proof (cases p; cases q)
  fix a b c d e f
  assume "p = Vec3 a b c" "q = Vec3 d e f"
  moreover have "(a - d) * (a - d) = (d - a) * (d - a)" "(b - e) * (b - e) = (e - b) * (e - b)"
    "(c - f) * (c - f) = (f - c) * (f - c)"
    by (simp_all add: algebra_simps)
  ultimately show ?thesis by simp
qed

section \<open>Generation\<close>

text \<open>
  Claim C1. Immediately after the generation kernel has run, every particle's current
  position equals its anchor: for each index below \<^verbatim>\<open>COUNT\<close> the spawn buffer and the
  original buffer of the stars hold the same vector, and likewise the two position buffers
  of the clouds for each index below \<^verbatim>\<open>CLOUD_COUNT\<close>. The buffers have exactly that many
  elements.
\<close>

theorem generation_position_equals_anchor:
  "(\<forall>idx<COUNT s. spawnPositionBuffer (computeInit H s) ! idx
                    = originalPositionBuffer (computeInit H s) ! idx)
   \<and> (\<forall>idx<CLOUD_COUNT c. cloudPositionBuffer (cloudInit_run H U c) ! idx
                    = cloudOriginalPositionBuffer (cloudInit_run H U c) ! idx)
   \<and> length (spawnPositionBuffer (computeInit H s)) = COUNT s
   \<and> length (originalPositionBuffer (computeInit H s)) = COUNT s
   \<and> length (cloudPositionBuffer (cloudInit_run H U c)) = CLOUD_COUNT c
   \<and> length (cloudOriginalPositionBuffer (cloudInit_run H U c)) = CLOUD_COUNT c"
  by (simp add: computeInit_def cloudInit_run_def Let_def)

theorem generation_position_equals_anchor_witness:
  "(2::nat) < COUNT (main_init small_config)
   \<and> spawnPositionBuffer (computeInit sample_helpers (main_init small_config)) ! 2
     = originalPositionBuffer (computeInit sample_helpers (main_init small_config)) ! 2
   \<and> (1::nat) < CLOUD_COUNT (the (clouds (main_init small_config)))
   \<and> cloudPositionBuffer (cloudInit_run sample_helpers (unis (main_init small_config))
         (the (clouds (main_init small_config)))) ! 1
     = cloudOriginalPositionBuffer (cloudInit_run sample_helpers (unis (main_init small_config))
         (the (clouds (main_init small_config)))) ! 1"
  using generation_position_equals_anchor
    [of "main_init small_config" sample_helpers "the (clouds (main_init small_config))"
        "unis (main_init small_config)"]
  by (simp add: small_COUNT small_clouds)

lemma init_sparsityFactor_clamped:
  assumes "0 \<le> armWidth G" and "0 \<le> randomness G"
  shows "init_sparsityFactor H G seed
           = spec_sparsityFactor (init_radiusOffset H G seed) (init_angleOffset H G seed)
               (armWidth G) (randomness G) 0.01
         \<and> 0 \<le> init_sparsityFactor H G seed
         \<and> init_sparsityFactor H G seed \<le> 1
         \<and> 0 < armWidth G * 0.5 + 0.01
         \<and> 0 < randomness G * 0.5 + 0.01"
proof -
  have a: "armWidth G * 0.5 + 0.01 > 0" and r: "randomness G * 0.5 + 0.01 > 0"
    using assms by simp_all
  have rs: "0 \<le> init_radialSparsity H G seed"
    unfolding init_radialSparsity_def using a by (intro divide_nonneg_pos) simp_all
  have as: "0 \<le> init_angularSparsity H G seed"
    unfolding init_angularSparsity_def using r by (intro divide_nonneg_pos) simp_all
  have bounds: "0 \<le> init_sparsityFactor H G seed" "init_sparsityFactor H G seed \<le> 1"
    using rs as by (simp_all add: init_sparsityFactor_def)
  have "(init_radialSparsity H G seed + init_angularSparsity H G seed) * 0.5 \<ge> 0"
    using rs as by simp
  then have "init_sparsityFactor H G seed
           = spec_sparsityFactor (init_radiusOffset H G seed) (init_angleOffset H G seed)
               (armWidth G) (randomness G) 0.01"
    by (simp add: init_sparsityFactor_def spec_sparsityFactor_def clamp_def
        init_radialSparsity_def init_angularSparsity_def max_def)
  with bounds a r show ?thesis by simp
qed

text \<open>
  Claim C8. For non-negative arm width and randomness, the sparsity factor that
  \<^verbatim>\<open>computeInit\<close> stores for a star is the clamp to \<open>[0, 1]\<close> of the mean of the two
  normalised offsets, as the spec writes it with \<open>\<epsilon> = 0.01\<close>; it lies in \<open>[0, 1]\<close>, and both
  divisors are positive, also when the arm width or the randomness is zero.
\<close>

theorem sparsity_factor_clamped:
  assumes "0 \<le> armWidth (galaxy (unis s))" and "0 \<le> randomness (galaxy (unis s))"
    and "idx < COUNT s"
  shows "densityFactorBuffer (computeInit H s) ! idx
           = spec_sparsityFactor (init_radiusOffset H (galaxy (unis s)) (init_seed idx))
               (init_angleOffset H (galaxy (unis s)) (init_seed idx))
               (armWidth (galaxy (unis s))) (randomness (galaxy (unis s))) 0.01
         \<and> 0 \<le> densityFactorBuffer (computeInit H s) ! idx
         \<and> densityFactorBuffer (computeInit H s) ! idx \<le> 1
         \<and> 0 < armWidth (galaxy (unis s)) * 0.5 + 0.01
         \<and> 0 < randomness (galaxy (unis s)) * 0.5 + 0.01"
proof -
  have stored: "densityFactorBuffer (computeInit H s) ! idx
          = init_sparsityFactor H (galaxy (unis s)) (init_seed idx)"
    using assms(3) by (simp add: computeInit_def Let_def)
  show ?thesis
    unfolding stored by (rule init_sparsityFactor_clamped [OF assms(1,2)])
qed

theorem sparsity_factor_clamped_witness:
  "0 \<le> armWidth (galaxy (unis (main_init scenario_config)))
   \<and> 0 \<le> randomness (galaxy (unis (main_init scenario_config)))
   \<and> 2 < COUNT (main_init scenario_config)
   \<and> armWidth (galaxy (unis (main_init scenario_config))) = 0
   \<and> randomness (galaxy (unis (main_init scenario_config))) = 0
   \<and> 0 \<le> densityFactorBuffer (computeInit sample_helpers (main_init scenario_config)) ! 2
   \<and> densityFactorBuffer (computeInit sample_helpers (main_init scenario_config)) ! 2 \<le> 1"
proof -
  have g: "galaxy (unis (main_init scenario_config)) = scenario_galaxy"
    by (simp add: main_init_def createClouds_def createGalaxySystem_def construct_def
        scenario_config_def small_config_def initializeUniforms_def scenario_galaxy_def)
  have h: "0 \<le> armWidth (galaxy (unis (main_init scenario_config)))"
    "0 \<le> randomness (galaxy (unis (main_init scenario_config)))"
    "2 < COUNT (main_init scenario_config)"
    by (simp_all add: g scenario_galaxy_def)
      (simp add: main_init_def createClouds_def createGalaxySystem_def construct_def
        scenario_config_def small_config_def)
  from sparsity_factor_clamped [OF h, of sample_helpers] h
  show ?thesis by (simp add: g scenario_galaxy_def)
qed

section \<open>The per-frame kernels\<close>

text \<open>
  Claim C2. In every invocation of a per-frame kernel the anchor is changed by the
  differential rotation only: the new element of the original-position buffer is the
  rotation helper applied to the old element, the rotation speed and the time step. This
  holds for every implementation of the pointer-force and spring helpers and for every
  pointer state, position and value of the other uniforms, since none of them occurs on the
  right-hand side.
\<close>

theorem anchor_changed_by_rotation_only:
  "(\<forall>idx<COUNT s. originalPositionBuffer (computeUpdate H s) ! idx
       = applyDifferentialRotation H (originalPositionBuffer s ! idx)
           (rotationSpeed (compute (unis s))) (deltaTime (compute (unis s))))
   \<and> (\<forall>idx<CLOUD_COUNT c. cloudOriginalPositionBuffer (cloudUpdate_run H C c) ! idx
       = applyDifferentialRotation H (cloudOriginalPositionBuffer c ! idx)
           (rotationSpeed C) (deltaTime C))"
  by (simp add: computeUpdate_def cloudUpdate_run_def update_rotatedOriginal_def Let_def)

theorem anchor_changed_by_rotation_only_witness:
  "(2::nat) < COUNT (main_init small_config)
   \<and> originalPositionBuffer (computeUpdate sample_helpers (main_init small_config)) ! 2
       = applyDifferentialRotation sample_helpers
           (originalPositionBuffer (main_init small_config) ! 2)
           (rotationSpeed (compute (unis (main_init small_config))))
           (deltaTime (compute (unis (main_init small_config))))
   \<and> (1::nat) < CLOUD_COUNT (the (clouds (main_init small_config)))
   \<and> cloudOriginalPositionBuffer (cloudUpdate_run sample_helpers
         (compute (unis (main_init small_config))) (the (clouds (main_init small_config)))) ! 1
       = applyDifferentialRotation sample_helpers
           (cloudOriginalPositionBuffer (the (clouds (main_init small_config))) ! 1)
           (rotationSpeed (compute (unis (main_init small_config))))
           (deltaTime (compute (unis (main_init small_config))))"
  using anchor_changed_by_rotation_only
    [of "main_init small_config" sample_helpers "the (clouds (main_init small_config))"
        "compute (unis (main_init small_config))"]
  by (simp add: small_COUNT small_clouds)

section \<open>The animation loop\<close>

text \<open>
  Claim C10. In every frame of \<^verbatim>\<open>animate\<close> the time step handed to \<^verbatim>\<open>update\<close> is the
  wall-clock difference of the two frame times, in seconds, clamped from above to \<open>0.033\<close>:
  it never exceeds \<open>0.033\<close>, it is the value of the \<^verbatim>\<open>deltaTime\<close> uniform the kernels of that
  frame read, and the simulated time advances by at most \<open>0.033\<close>.
\<close>

theorem frame_delta_clamped:
  "animate H currentTime mouse3D mousePressed (lastFrameTime, rs)
     = (currentTime,
        update H (min ((currentTime - lastFrameTime) / 1000) 0.033) mouse3D mousePressed rs)
   \<and> min ((currentTime - lastFrameTime) / 1000) 0.033 \<le> (0.033 :: real)
   \<and> deltaTime (compute (unis (snd (snd
         (animate H currentTime mouse3D mousePressed (lastFrameTime, rs))))))
       = min ((currentTime - lastFrameTime) / 1000) 0.033
   \<and> time (compute (unis (snd (snd
         (animate H currentTime mouse3D mousePressed (lastFrameTime, rs))))))
       \<le> time (compute (unis (snd rs))) + 0.033"
proof -
  have a: "animate H currentTime mouse3D mousePressed (lastFrameTime, rs)
     = (currentTime,
        update H (min ((currentTime - lastFrameTime) / 1000) 0.033) mouse3D mousePressed rs)"
    by (simp add: animate_def frame_deltaTime_def Let_def)
  have b: "min ((currentTime - lastFrameTime) / 1000) 0.033 \<le> (0.033 :: real)"
    by (rule min.cobounded2)
  show ?thesis
    unfolding a using b by (simp add: compute_after_update del: min_less_iff_disj min_le_iff_disj)
qed

section \<open>Facts about the sample inputs\<close>

lemma sample_hash_range: "0 \<le> sample_hash x \<and> sample_hash x < 1"
  by (simp add: sample_hash_def frac_lt_1)

lemma hash_sample [simp]: "hash sample_helpers = sample_hash"
  by (simp add: sample_helpers_def spec_helpers_def)

lemma sample_hash_1: "sample_hash 1 = 1 / 4"
  by (simp add: sample_hash_def frac_def)

lemma sample_hash_2: "sample_hash 2 = 1 / 2"
  by (simp add: sample_hash_def frac_def)

lemma small_galaxy:
  "galaxy (unis (main_init small_config)) =
     \<lparr>radius = 13, thickness = 6, spiralTightness = 1.5, armCount = 2,
      armWidth = 2.25, randomness = 1.85\<rparr>"
  by (simp add: main_init_def createClouds_def createGalaxySystem_def construct_def
      small_config_def initializeUniforms_def)

section \<open>The pointer force\<close>

text \<open>
  Claim C3. With the pointer force as the spec describes it: if the pointer-active flag is
  false (the uniform is \<open>0\<close>, the value \<^verbatim>\<open>update\<close> stores when the pointer is not pressed),
  or the distance from the pointer to the particle's position, as it is when the force is
  evaluated (after the rotation of this step), is at least \<^verbatim>\<open>mouseRadius\<close>, then the
  displacement the kernel adds for the pointer is exactly the zero vector. Both kernels
  compute it with the same statements.
\<close>

theorem pointer_force_zero_outside:
  assumes "H = spec_helpers h rotationAngle falloff"
    and "mouseActive C = 0 \<or> mouseRadius C \<le> distance (mouse C) (update_rotatedPos H C position)"
  shows "update_mouseForce H C position = vec_zero
         \<and> mouseActive (compute (unis (update_uniforms dt mouse3D False s))) = 0"
  using assms
  by (auto simp: update_mouseForce_def spec_helpers_def spec_applyMouseForce_def Let_def
      distance_def update_uniforms_def vec_length_sub_commute [of "mouse C"])

theorem pointer_force_zero_outside_witness:
  "sample_helpers = spec_helpers sample_hash sample_rotationAngle sample_falloff
   \<and> mouseRadius pointer_above
       \<le> distance (mouse pointer_above) (update_rotatedPos sample_helpers pointer_above (Vec3 0 0 0))
   \<and> update_mouseForce sample_helpers pointer_above (Vec3 0 0 0) = vec_zero"
proof -
  have "(5::real) \<le> sqrt 49"
    by (rule real_le_rsqrt) simp
  then have d: "mouseRadius pointer_above
       \<le> distance (mouse pointer_above) (update_rotatedPos sample_helpers pointer_above (Vec3 0 0 0))"
    by (simp add: pointer_above_def distance_def update_rotatedPos_def sample_helpers_def
        spec_helpers_def spec_applyDifferentialRotation_def)
  show ?thesis
    using d pointer_force_zero_outside [OF sample_helpers_def disjI2, OF d]
    by (simp add: sample_helpers_def)
qed

section \<open>Bounds on generated particles\<close>

lemma normalizedRadius_range:
  assumes "0 \<le> hash H (seed + 1)" and "hash H (seed + 1) < 1" and "0 < radius G"
  shows "0 \<le> init_normalizedRadius H G seed \<and> init_normalizedRadius H G seed \<le> 1"
proof -
  have "hash H (seed + 1) powr (1 / 2) \<le> 1 powr (1 / 2)"
    using assms by (intro powr_mono2) simp_all
  then have "hash H (seed + 1) powr (1 / 2) \<le> 1" by simp
  moreover have "0 \<le> hash H (seed + 1) powr (1 / 2)" by simp
  ultimately show ?thesis
    using assms(3) by (simp add: init_normalizedRadius_def init_radius_def)
qed

lemma init_radius_range:
  assumes "0 \<le> hash H (seed + 1)" and "hash H (seed + 1) < 1" and "0 < radius G"
  shows "0 \<le> init_radius H G seed \<and> init_radius H G seed \<le> radius G"
proof -
  have eq: "init_radius H G seed = init_normalizedRadius H G seed * radius G"
    using assms(3) by (simp add: init_normalizedRadius_def)
  have nr: "0 \<le> init_normalizedRadius H G seed" "init_normalizedRadius H G seed \<le> 1"
    using normalizedRadius_range [OF assms] by simp_all
  have "init_normalizedRadius H G seed * radius G \<le> 1 * radius G"
    using nr assms(3) by (intro mult_right_mono) simp_all
  moreover have "0 \<le> init_normalizedRadius H G seed * radius G"
    using nr assms(3) by simp
  ultimately show ?thesis unfolding eq by simp
qed

lemma init_y_bound:
  assumes "0 \<le> hash H (seed + 1)" and "hash H (seed + 1) < 1"
    and "0 \<le> hash H (seed + 5)" and "hash H (seed + 5) < 1"
    and "0 < radius G" and "0 \<le> thickness G"
  shows "\<bar>init_y H G seed\<bar> \<le> thickness G"
proof -
  have nr: "0 \<le> init_normalizedRadius H G seed" "init_normalizedRadius H G seed \<le> 1"
    using normalizedRadius_range [OF assms(1,2,5)] by simp_all
  have tf: "0 \<le> init_thicknessFactor H G seed" "init_thicknessFactor H G seed \<le> 6 / 5"
    using nr by (simp_all add: init_thicknessFactor_def)
  have h: "\<bar>hash H (seed + 5) - 0.5\<bar> \<le> 1 / 2"
    using assms(3,4) by linarith
  have "\<bar>init_y H G seed\<bar>
          = (\<bar>hash H (seed + 5) - 0.5\<bar> * thickness G) * init_thicknessFactor H G seed"
    using assms(6) tf(1) by (simp add: init_y_def abs_mult)
  also have "\<dots> \<le> (1 / 2 * thickness G) * (6 / 5)"
    using h tf assms(6) by (intro mult_mono mult_right_mono) simp_all
  also have "\<dots> \<le> thickness G"
    using assms(6) by simp
  finally show ?thesis .
qed

lemma axisDistance_init_position:
  "axisDistance (init_position H G seed) = \<bar>init_offsetRadius H G seed\<bar>"
proof -
  let ?a = "init_angle H G seed" and ?r = "init_offsetRadius H G seed"
  have ring: "c * r * (c * r) + d * r * (d * r) = r * r * (c * c + d * d)" for c d r :: real
    by (simp add: algebra_simps)
  have "cos ?a * cos ?a + sin ?a * sin ?a = 1"
    using sin_cos_squared_add2 [of ?a] by (simp add: power2_eq_square)
  then have "cos ?a * ?r * (cos ?a * ?r) + sin ?a * ?r * (sin ?a * ?r) = ?r * ?r"
    by (simp only: ring mult_1_right)
  then show ?thesis
    by (simp add: init_position_def init_x_def init_z_def)
qed

lemma offsetRadius_bound:
  assumes "0 \<le> hash H (seed + 1)" and "hash H (seed + 1) < 1"
    and "0 \<le> hash H (seed + 4)" and "hash H (seed + 4) < 1"
    and "0 < radius G" and "0 \<le> armWidth G"
  shows "\<bar>init_offsetRadius H G seed\<bar> \<le> radius G + armWidth G / 2"
proof -
  have r: "0 \<le> init_radius H G seed" "init_radius H G seed \<le> radius G"
    using init_radius_range [OF assms(1,2,5)] by simp_all
  have "\<bar>init_radiusOffset H G seed\<bar> = \<bar>hash H (seed + 4) - 0.5\<bar> * armWidth G"
    using assms(6) by (simp add: init_radiusOffset_def abs_mult)
  also have "\<dots> \<le> 1 / 2 * armWidth G"
  proof (rule mult_right_mono)
    show "\<bar>hash H (seed + 4) - 0.5\<bar> \<le> 1 / 2" using assms(3,4) by linarith
    show "0 \<le> armWidth G" by (rule assms(6))
  qed
  finally have "\<bar>init_radiusOffset H G seed\<bar> \<le> armWidth G / 2" by simp
  with r show ?thesis
    unfolding init_offsetRadius_def by linarith
qed

lemma cloud_normalizedRadius_range:
  assumes "0 \<le> hash H (seed + 1)" and "hash H (seed + 1) < 1" and "0 < radius G"
  shows "0 \<le> cloud_normalizedRadius H G seed \<and> cloud_normalizedRadius H G seed \<le> 1"
proof -
  have "hash H (seed + 1) powr (7 / 10) \<le> 1 powr (7 / 10)"
    using assms by (intro powr_mono2) simp_all
  then have "hash H (seed + 1) powr (7 / 10) \<le> 1" by simp
  moreover have "0 \<le> hash H (seed + 1) powr (7 / 10)" by simp
  ultimately show ?thesis
    using assms(3) by (simp add: cloud_normalizedRadius_def cloud_radius_def)
qed

lemma cloud_radius_range:
  assumes "0 \<le> hash H (seed + 1)" and "hash H (seed + 1) < 1" and "0 < radius G"
  shows "0 \<le> cloud_radius H G seed \<and> cloud_radius H G seed \<le> radius G"
proof -
  have eq: "cloud_radius H G seed = cloud_normalizedRadius H G seed * radius G"
    using assms(3) by (simp add: cloud_normalizedRadius_def)
  have nr: "0 \<le> cloud_normalizedRadius H G seed" "cloud_normalizedRadius H G seed \<le> 1"
    using cloud_normalizedRadius_range [OF assms] by simp_all
  have "cloud_normalizedRadius H G seed * radius G \<le> 1 * radius G"
    using nr assms(3) by (intro mult_right_mono) simp_all
  moreover have "0 \<le> cloud_normalizedRadius H G seed * radius G"
    using nr assms(3) by simp
  ultimately show ?thesis unfolding eq by simp
qed

lemma cloud_position_y:
  "vec_y (cloud_position H G seed)
     = (hash H (seed + 5) - 0.5) * thickness G * (1.0 - cloud_normalizedRadius H G seed + 0.15)"
  by (simp add: cloud_position_def Let_def)

lemma cloud_y_bound:
  assumes "0 \<le> hash H (seed + 1)" and "hash H (seed + 1) < 1"
    and "0 \<le> hash H (seed + 5)" and "hash H (seed + 5) < 1"
    and "0 < radius G" and "0 \<le> thickness G"
  shows "\<bar>vec_y (cloud_position H G seed)\<bar> \<le> thickness G"
proof -
  let ?tf = "1.0 - cloud_normalizedRadius H G seed + 0.15"
  have nr: "0 \<le> cloud_normalizedRadius H G seed" "cloud_normalizedRadius H G seed \<le> 1"
    using cloud_normalizedRadius_range [OF assms(1,2,5)] by simp_all
  have tf: "0 \<le> ?tf" "?tf \<le> 23 / 20"
    using nr by simp_all
  have h: "\<bar>hash H (seed + 5) - 0.5\<bar> \<le> 1 / 2"
    using assms(3,4) by linarith
  have "\<bar>vec_y (cloud_position H G seed)\<bar>
          = (\<bar>hash H (seed + 5) - 0.5\<bar> * thickness G) * ?tf"
    using assms(6) tf(1) unfolding cloud_position_y by (simp add: abs_mult)
  also have "\<dots> \<le> (1 / 2 * thickness G) * (23 / 20)"
    using h tf assms(6) by (intro mult_mono mult_right_mono) simp_all
  also have "\<dots> \<le> thickness G"
    using assms(6) by simp
  finally show ?thesis .
qed

lemma axisDistance_cloud_position:
  "axisDistance (cloud_position H G seed) = \<bar>cloud_offsetRadius H G seed\<bar>"
proof -
  let ?a = "cloud_angle H G seed" and ?r = "cloud_offsetRadius H G seed"
  have ring: "c * r * (c * r) + d * r * (d * r) = r * r * (c * c + d * d)" for c d r :: real
    by (simp add: algebra_simps)
  have "cos ?a * cos ?a + sin ?a * sin ?a = 1"
    using sin_cos_squared_add2 [of ?a] by (simp add: power2_eq_square)
  then have "cos ?a * ?r * (cos ?a * ?r) + sin ?a * ?r * (sin ?a * ?r) = ?r * ?r"
    by (simp only: ring mult_1_right)
  then show ?thesis
    by (simp add: cloud_position_def Let_def)
qed

lemma cloud_offsetRadius_bound:
  assumes "0 \<le> hash H (seed + 1)" and "hash H (seed + 1) < 1"
    and "0 \<le> hash H (seed + 4)" and "hash H (seed + 4) < 1"
    and "0 < radius G" and "0 \<le> armWidth G"
  shows "\<bar>cloud_offsetRadius H G seed\<bar> \<le> radius G + armWidth G / 2"
proof -
  have r: "0 \<le> cloud_radius H G seed" "cloud_radius H G seed \<le> radius G"
    using cloud_radius_range [OF assms(1,2,5)] by simp_all
  have "\<bar>(hash H (seed + 4) - 0.5) * armWidth G\<bar> = \<bar>hash H (seed + 4) - 0.5\<bar> * armWidth G"
    using assms(6) by (simp add: abs_mult)
  also have "\<dots> \<le> 1 / 2 * armWidth G"
  proof (rule mult_right_mono)
    show "\<bar>hash H (seed + 4) - 0.5\<bar> \<le> 1 / 2" using assms(3,4) by linarith
    show "0 \<le> armWidth G" by (rule assms(6))
  qed
  finally have "\<bar>(hash H (seed + 4) - 0.5) * armWidth G\<bar> \<le> armWidth G / 2" by simp
  with r show ?thesis
    unfolding cloud_offsetRadius_def Let_def by linarith
qed

text \<open>
  Claim C7. For a hash with values in \<open>[0, 1)\<close>, a positive galaxy radius and non-negative
  thickness and arm width, every generated particle, star (written by \<^verbatim>\<open>computeInit\<close>) or
  cloud (written by \<^verbatim>\<open>cloudInit\<close>), has \<open>|y|\<close> at most the thickness (the thickness factor is
  at most \<open>1.2\<close> for stars and \<open>1.15\<close> for clouds, the vertical draw at most one half in
  absolute value), its drawn radius is at most the galaxy radius, and its distance from the
  vertical axis is at most the galaxy radius plus half the arm width. None of this depends
  on the randomness, so it holds in particular when the randomness is zero.
\<close>

theorem generated_position_bounds:
  assumes "\<forall>x. 0 \<le> hash H x \<and> hash H x < 1"
    and "0 < radius (galaxy (unis s))" and "0 \<le> thickness (galaxy (unis s))"
    and "0 \<le> armWidth (galaxy (unis s))"
  shows "(idx < COUNT s \<longrightarrow>
            \<bar>vec_y (spawnPositionBuffer (computeInit H s) ! idx)\<bar> \<le> thickness (galaxy (unis s))
          \<and> init_radius H (galaxy (unis s)) (init_seed idx) \<le> radius (galaxy (unis s))
          \<and> axisDistance (spawnPositionBuffer (computeInit H s) ! idx)
              \<le> radius (galaxy (unis s)) + armWidth (galaxy (unis s)) / 2)
       \<and> (j < CLOUD_COUNT c \<longrightarrow>
            \<bar>vec_y (cloudPositionBuffer (cloudInit_run H (unis s) c) ! j)\<bar>
              \<le> thickness (galaxy (unis s))
          \<and> cloud_radius H (galaxy (unis s)) (cloud_seed j) \<le> radius (galaxy (unis s))
          \<and> axisDistance (cloudPositionBuffer (cloudInit_run H (unis s) c) ! j)
              \<le> radius (galaxy (unis s)) + armWidth (galaxy (unis s)) / 2)"
proof (intro conjI impI)
  let ?G = "galaxy (unis s)"
  have h: "\<And>x. 0 \<le> hash H x" "\<And>x. hash H x < 1"
    using assms(1) by simp_all
  {
    assume i: "idx < COUNT s"
    have p: "spawnPositionBuffer (computeInit H s) ! idx = init_position H ?G (init_seed idx)"
      using i by (simp add: computeInit_def Let_def)
    have "\<bar>init_y H ?G (init_seed idx)\<bar> \<le> thickness ?G"
      by (rule init_y_bound) (simp_all add: h assms)
    then show "\<bar>vec_y (spawnPositionBuffer (computeInit H s) ! idx)\<bar> \<le> thickness ?G"
      unfolding p by (simp add: init_position_def)
    show "init_radius H ?G (init_seed idx) \<le> radius ?G"
      using init_radius_range [of H "init_seed idx" ?G] h assms(2) by simp
    have "\<bar>init_offsetRadius H ?G (init_seed idx)\<bar> \<le> radius ?G + armWidth ?G / 2"
      by (rule offsetRadius_bound) (simp_all add: h assms)
    then show "axisDistance (spawnPositionBuffer (computeInit H s) ! idx)
                 \<le> radius ?G + armWidth ?G / 2"
      unfolding p axisDistance_init_position .
  }
  {
    assume j: "j < CLOUD_COUNT c"
    have p: "cloudPositionBuffer (cloudInit_run H (unis s) c) ! j
               = cloud_position H ?G (cloud_seed j)"
      using j by (simp add: cloudInit_run_def Let_def)
    show "\<bar>vec_y (cloudPositionBuffer (cloudInit_run H (unis s) c) ! j)\<bar> \<le> thickness ?G"
      unfolding p by (rule cloud_y_bound) (simp_all add: h assms)
    show "cloud_radius H ?G (cloud_seed j) \<le> radius ?G"
      using cloud_radius_range [of H "cloud_seed j" ?G] h assms(2) by simp
    have "\<bar>cloud_offsetRadius H ?G (cloud_seed j)\<bar> \<le> radius ?G + armWidth ?G / 2"
      by (rule cloud_offsetRadius_bound) (simp_all add: h assms)
    then show "axisDistance (cloudPositionBuffer (cloudInit_run H (unis s) c) ! j)
                 \<le> radius ?G + armWidth ?G / 2"
      unfolding p axisDistance_cloud_position .
  }
qed

theorem generated_position_bounds_witness:
  "(\<forall>x. 0 \<le> hash sample_helpers x \<and> hash sample_helpers x < 1)
   \<and> 0 < radius (galaxy (unis (main_init small_config)))
   \<and> 0 \<le> thickness (galaxy (unis (main_init small_config)))
   \<and> 0 \<le> armWidth (galaxy (unis (main_init small_config)))
   \<and> 2 < COUNT (main_init small_config)
   \<and> 1 < CLOUD_COUNT (the (clouds (main_init small_config)))
   \<and> \<bar>vec_y (spawnPositionBuffer (computeInit sample_helpers (main_init small_config)) ! 2)\<bar>
       \<le> 6
   \<and> axisDistance (spawnPositionBuffer (computeInit sample_helpers (main_init small_config)) ! 2)
       \<le> 13 + 2.25 / 2
   \<and> \<bar>vec_y (cloudPositionBuffer (cloudInit_run sample_helpers (unis (main_init small_config))
          (the (clouds (main_init small_config)))) ! 1)\<bar> \<le> 6
   \<and> axisDistance (cloudPositionBuffer (cloudInit_run sample_helpers
          (unis (main_init small_config)) (the (clouds (main_init small_config)))) ! 1)
       \<le> 13 + 2.25 / 2"
proof -
  have h: "\<forall>x. 0 \<le> hash sample_helpers x \<and> hash sample_helpers x < 1"
    "0 < radius (galaxy (unis (main_init small_config)))"
    "0 \<le> thickness (galaxy (unis (main_init small_config)))"
    "0 \<le> armWidth (galaxy (unis (main_init small_config)))"
    by (simp_all add: sample_hash_range small_galaxy)
  have i: "2 < COUNT (main_init small_config)"
    "1 < CLOUD_COUNT (the (clouds (main_init small_config)))"
    by (simp_all add: small_COUNT small_clouds)
  from generated_position_bounds [OF h, of 2 1 "the (clouds (main_init small_config))"] h i
  show ?thesis
    by (simp add: small_galaxy)
qed

section \<open>The two-arm scenario\<close>

text \<open>The constant \<open>6.28318\<close> of the kernels is smaller than \<open>2\<pi>\<close>.\<close>

lemma sin_upper: "sin (314159 / 600000 :: real) < 1 / 2"
proof -
  let ?x = "314159 / 600000 :: real"
  have "\<bar>sin ?x - (\<Sum>m<9. sin_coeff m * ?x ^ m)\<bar> \<le> inverse (fact 9) * \<bar>?x\<bar> ^ 9"
    by (rule Maclaurin_sin_bound)
  then have "sin ?x \<le> (\<Sum>m<9. sin_coeff m * ?x ^ m) + inverse (fact 9) * \<bar>?x\<bar> ^ 9"
    by linarith
  moreover have "(\<Sum>m<9. sin_coeff m * ?x ^ m) + inverse (fact 9) * \<bar>?x\<bar> ^ 9 < 1 / 2"
    by (simp add: sin_coeff_def lessThan_nat_numeral lessThan_Suc fact_numeral power_numeral_reduce)
  ultimately show ?thesis by linarith
qed

lemma pi_gt: "3.14159 < pi"
proof -
  have "sin (314159 / 600000 :: real) < sin (pi / 6)"
    using sin_upper by (simp add: sin_30)
  moreover have "- (pi / 2) \<le> 314159 / 600000" "314159 / 600000 \<le> pi / 2"
    "- (pi / 2) \<le> pi / 6" "pi / 6 \<le> pi / 2"
    using pi_ge_two by simp_all
  ultimately have "314159 / 600000 < pi / 6"
    by (simp add: sin_mono_less_eq)
  then show ?thesis by simp
qed

lemma quarter_powr_half: "(1 / 4 :: real) powr (1 / 2) = 1 / 2"
proof -
  have "(1 / 4 :: real) powr (1 / 2) = sqrt (1 / 4)"
    by (simp add: powr_half_sqrt)
  also have "\<dots> = 1 / 2"
    by (simp add: real_sqrt_divide)
  finally show ?thesis .
qed

lemma scenario_nr: "init_normalizedRadius sample_helpers scenario_galaxy (init_seed 0) = 1 / 2"
  by (simp add: init_normalizedRadius_def init_radius_def init_seed_def scenario_galaxy_def
      sample_hash_1 quarter_powr_half)

lemma scenario_armIndex: "init_armIndex sample_helpers scenario_galaxy (init_seed 0) = 1"
  by (simp add: init_armIndex_def init_seed_def scenario_galaxy_def sample_hash_2)

lemma scenario_angle: "init_angle sample_helpers scenario_galaxy (init_seed 0) = 2.5 * 3.14159"
  using scenario_nr scenario_armIndex
  by (simp add: init_angle_def init_armAngle_def init_spiralAngle_def init_angleOffset_def
      scenario_galaxy_def)

text \<open>
  Claim C6, as stated, fails: with two arms, tightness \<open>1.5\<close>, radius \<open>13\<close> and no jitter, the
  star of index \<open>0\<close> under the sample hash has arm index \<open>1\<close> and normalised radius \<open>1/2\<close>;
  its angle is \<open>2.5 \<times> 3.14159\<close>, which is not \<open>1 \<times> \<pi> + 1/2 \<times> 1.5 \<times> 2\<pi> = 2.5 \<pi>\<close>.
\<close>

theorem ideal_angle_counterexample:
  "init_angle sample_helpers scenario_galaxy (init_seed 0)
     \<noteq> init_armIndex sample_helpers scenario_galaxy (init_seed 0) * pi
       + init_normalizedRadius sample_helpers scenario_galaxy (init_seed 0) * 1.5 * (2 * pi)"
  using pi_gt by (simp add: scenario_angle scenario_nr scenario_armIndex)

text \<open>
  Claim C6, amended. With \<^verbatim>\<open>armCount = 2\<close>, \<^verbatim>\<open>spiralTightness = 1.5\<close>, \<^verbatim>\<open>galaxyRadius = 13\<close>,
  \<^verbatim>\<open>randomness = 0\<close> and \<^verbatim>\<open>armWidth = 0\<close>, and a hash value in \<open>[0, 1)\<close> for the arm draw,
  the angle of every generated particle is exactly
  \<open>armIndex \<times> (6.28318 / 2) + normalizedRadius \<times> 1.5 \<times> 6.28318\<close> with \<open>armIndex\<close> being \<open>0\<close>
  or \<open>1\<close>: both jitter terms are exactly zero and the particle lies on the spiral curve of
  its arm, the curves being those drawn with the kernel's constant \<open>6.28318\<close> in place of
  \<open>2\<pi>\<close>. This holds for the star and for the cloud drawn with any seed; the star of index
  \<open>idx\<close> has seed \<open>idx\<close>, the cloud of index \<open>idx\<close> has seed \<open>idx + 10000\<close>, and the position
  buffers hold the positions computed from these angles.
\<close>

theorem scenario_angle_no_jitter:
  assumes "0 \<le> hash H (seed + 2)" and "hash H (seed + 2) < 1"
    and "armCount G = 2" and "spiralTightness G = 1.5" and "radius G = 13"
    and "randomness G = 0" and "armWidth G = 0"
  shows "init_angle H G seed
           = init_armIndex H G seed * (6.28318 / 2)
             + init_normalizedRadius H G seed * 1.5 * 6.28318
         \<and> (init_armIndex H G seed = 0 \<or> init_armIndex H G seed = 1)
         \<and> init_angleOffset H G seed = 0
         \<and> init_radiusOffset H G seed = 0
         \<and> init_position H G seed
             = Vec3 (cos (init_angle H G seed) * init_radius H G seed)
                    (init_y H G seed)
                    (sin (init_angle H G seed) * init_radius H G seed)
         \<and> cloud_angle H G seed
             = of_int \<lfloor>hash H (seed + 2) * armCount G\<rfloor> * (6.28318 / 2)
               + cloud_normalizedRadius H G seed * 1.5 * 6.28318
         \<and> (\<lfloor>hash H (seed + 2) * armCount G\<rfloor> = 0 \<or> \<lfloor>hash H (seed + 2) * armCount G\<rfloor> = 1)
         \<and> (hash H (seed + 3) - 0.5) * randomness G = 0
         \<and> cloud_offsetRadius H G seed = cloud_radius H G seed
         \<and> cloud_position H G seed
             = Vec3 (cos (cloud_angle H G seed) * cloud_radius H G seed)
                    (vec_y (cloud_position H G seed))
                    (sin (cloud_angle H G seed) * cloud_radius H G seed)
         \<and> (idx < COUNT s \<and> galaxy (unis s) = G \<longrightarrow>
               spawnPositionBuffer (computeInit H s) ! idx = init_position H G (init_seed idx))
         \<and> (j < CLOUD_COUNT c \<and> galaxy U = G \<longrightarrow>
               cloudPositionBuffer (cloudInit_run H U c) ! j = cloud_position H G (cloud_seed j))"
proof -
  have "0 \<le> \<lfloor>hash H (seed + 2) * 2\<rfloor>" "\<lfloor>hash H (seed + 2) * 2\<rfloor> < 2"
    using assms(1,2) by (simp_all add: floor_less_iff)
  then have fl: "\<lfloor>hash H (seed + 2) * 2\<rfloor> = 0 \<or> \<lfloor>hash H (seed + 2) * 2\<rfloor> = 1"
    by linarith
  then have arm: "init_armIndex H G seed = 0 \<or> init_armIndex H G seed = 1"
    by (auto simp: init_armIndex_def assms(3))
  have off: "init_angleOffset H G seed = 0" "init_radiusOffset H G seed = 0"
    by (simp_all add: init_angleOffset_def init_radiusOffset_def assms)
  have ang: "init_angle H G seed
           = init_armIndex H G seed * (6.28318 / 2)
             + init_normalizedRadius H G seed * 1.5 * 6.28318"
    by (simp add: init_angle_def init_armAngle_def init_spiralAngle_def off assms)
  have pos: "init_position H G seed
             = Vec3 (cos (init_angle H G seed) * init_radius H G seed)
                    (init_y H G seed)
                    (sin (init_angle H G seed) * init_radius H G seed)"
    by (simp add: init_position_def init_x_def init_z_def init_offsetRadius_def off)
  have cfl: "\<lfloor>hash H (seed + 2) * armCount G\<rfloor> = 0 \<or> \<lfloor>hash H (seed + 2) * armCount G\<rfloor> = 1"
    using fl by (simp add: assms(3))
  have cang: "cloud_angle H G seed
             = of_int \<lfloor>hash H (seed + 2) * armCount G\<rfloor> * (6.28318 / 2)
               + cloud_normalizedRadius H G seed * 1.5 * 6.28318"
    by (simp add: cloud_angle_def Let_def assms)
  have coff: "(hash H (seed + 3) - 0.5) * randomness G = 0"
    by (simp add: assms)
  have crad: "cloud_offsetRadius H G seed = cloud_radius H G seed"
    by (simp add: cloud_offsetRadius_def Let_def assms)
  have cpos: "cloud_position H G seed
             = Vec3 (cos (cloud_angle H G seed) * cloud_radius H G seed)
                    (vec_y (cloud_position H G seed))
                    (sin (cloud_angle H G seed) * cloud_radius H G seed)"
    by (simp add: cloud_position_def Let_def crad)
  have star: "idx < COUNT s \<and> galaxy (unis s) = G \<longrightarrow>
               spawnPositionBuffer (computeInit H s) ! idx = init_position H G (init_seed idx)"
    by (auto simp: computeInit_def Let_def)
  have cloud: "j < CLOUD_COUNT c \<and> galaxy U = G \<longrightarrow>
               cloudPositionBuffer (cloudInit_run H U c) ! j = cloud_position H G (cloud_seed j)"
    by (auto simp: cloudInit_run_def Let_def)
  from ang arm off pos cang cfl coff crad cpos star cloud show ?thesis by blast
qed

lemma scenario_config_state:
  "galaxy (unis (main_init scenario_config)) = scenario_galaxy"
  "COUNT (main_init scenario_config) = 3"
  "clouds (main_init scenario_config) =
     Some \<lparr>CLOUD_COUNT = 2,
           cloudPositionBuffer = replicate 2 vec_zero,
           cloudOriginalPositionBuffer = replicate 2 vec_zero,
           cloudColorSizeBuffer = replicate 2 (Vec4 0 0 0 0),
           cloudRotationBuffer = replicate 2 0\<rparr>"
  by (simp_all add: main_init_def createClouds_def createGalaxySystem_def construct_def
      scenario_config_def small_config_def initializeUniforms_def scenario_galaxy_def)

theorem scenario_angle_no_jitter_witness:
  "0 \<le> hash sample_helpers (init_seed 2 + 2) \<and> hash sample_helpers (init_seed 2 + 2) < 1
   \<and> 0 \<le> hash sample_helpers (cloud_seed 1 + 2) \<and> hash sample_helpers (cloud_seed 1 + 2) < 1
   \<and> armCount scenario_galaxy = 2 \<and> spiralTightness scenario_galaxy = 1.5
   \<and> radius scenario_galaxy = 13 \<and> randomness scenario_galaxy = 0
   \<and> armWidth scenario_galaxy = 0
   \<and> 2 < COUNT (main_init scenario_config)
   \<and> 1 < CLOUD_COUNT (the (clouds (main_init scenario_config)))
   \<and> galaxy (unis (main_init scenario_config)) = scenario_galaxy
   \<and> init_angle sample_helpers scenario_galaxy (init_seed 2)
       = init_armIndex sample_helpers scenario_galaxy (init_seed 2) * (6.28318 / 2)
         + init_normalizedRadius sample_helpers scenario_galaxy (init_seed 2) * 1.5 * 6.28318
   \<and> spawnPositionBuffer (computeInit sample_helpers (main_init scenario_config)) ! 2
       = init_position sample_helpers scenario_galaxy (init_seed 2)
   \<and> cloud_angle sample_helpers scenario_galaxy (cloud_seed 1)
       = of_int \<lfloor>hash sample_helpers (cloud_seed 1 + 2) * armCount scenario_galaxy\<rfloor>
           * (6.28318 / 2)
         + cloud_normalizedRadius sample_helpers scenario_galaxy (cloud_seed 1) * 1.5 * 6.28318
   \<and> cloudPositionBuffer (cloudInit_run sample_helpers (unis (main_init scenario_config))
         (the (clouds (main_init scenario_config)))) ! 1
       = cloud_position sample_helpers scenario_galaxy (cloud_seed 1)"
proof -
  have h: "0 \<le> hash sample_helpers (init_seed 2 + 2)" "hash sample_helpers (init_seed 2 + 2) < 1"
    "armCount scenario_galaxy = 2" "spiralTightness scenario_galaxy = 1.5"
    "radius scenario_galaxy = 13" "randomness scenario_galaxy = 0"
    "armWidth scenario_galaxy = 0"
    by (simp_all add: sample_hash_range scenario_galaxy_def)
  have c: "0 \<le> hash sample_helpers (cloud_seed 1 + 2)" "hash sample_helpers (cloud_seed 1 + 2) < 1"
    by (simp_all add: sample_hash_range)
  have i: "2 < COUNT (main_init scenario_config)"
    "1 < CLOUD_COUNT (the (clouds (main_init scenario_config)))"
    "galaxy (unis (main_init scenario_config)) = scenario_galaxy"
    by (simp_all add: scenario_config_state)
  from scenario_angle_no_jitter [OF h, of 2 "main_init scenario_config"]
    scenario_angle_no_jitter [OF c h(3-7), of _ _ 1 "the (clouds (main_init scenario_config))"
      "unis (main_init scenario_config)"]
    h c i
  show ?thesis by blast
qed

section \<open>Determinism of the generation step\<close>

lemma star_buffers_cloudInit [simp]:
  "spawnPositionBuffer (cloudInit H s) = spawnPositionBuffer s"
  "originalPositionBuffer (cloudInit H s) = originalPositionBuffer s"
  "velocityBuffer (cloudInit H s) = velocityBuffer s"
  "densityFactorBuffer (cloudInit H s) = densityFactorBuffer s"
  by (simp_all add: cloudInit_def split: option.split)




lemma count_galaxy_kernels [simp]:
  "COUNT (computeInit H s) = COUNT s" "COUNT (cloudInit H s) = COUNT s"
  "COUNT (computeUpdate H s) = COUNT s" "COUNT (cloudUpdate H s) = COUNT s"
  by (simp_all add: computeInit_def cloudInit_def computeUpdate_def cloudUpdate_def Let_def
      split: option.split)

lemma count_after_update [simp]: "COUNT (snd (update H dt m p rs)) = COUNT (snd rs)"
  by (simp add: update_def update_physics_def update_generation_def computeAsync_def
      update_uniforms_def Let_def)

lemma galaxy_after_update [simp]:
  "galaxy (unis (snd (update H dt m p rs))) = galaxy (unis (snd rs))"
  by (simp add: update_def update_uniforms_def Let_def)

lemma main_init_flags [simp]:
  "\<not> initialized (main_init cfg)" "\<not> cloudInitialized (main_init cfg)"
  by (simp_all add: main_init_def createClouds_def createGalaxySystem_def construct_def)



section \<open>The controller: generation before physics\<close>

lemma clouds_star_kernels [simp]:
  "clouds (computeInit H s) = clouds s"
  "clouds (computeUpdate H s) = clouds s"
  by (simp_all add: computeInit_def computeUpdate_def Let_def)

lemma clouds_cloud_kernels [simp]:
  "(clouds (cloudInit H s) = None) = (clouds s = None)"
  "(clouds (cloudUpdate H s) = None) = (clouds s = None)"
  by (simp_all add: cloudInit_def cloudUpdate_def split: option.split)

lemma flags_kernels [simp]:
  "initialized (computeInit H s) = initialized s"
  "cloudInitialized (computeInit H s) = cloudInitialized s"
  "initialized (cloudInit H s) = initialized s"
  "cloudInitialized (cloudInit H s) = cloudInitialized s"
  "initialized (computeUpdate H s) = initialized s"
  "cloudInitialized (computeUpdate H s) = cloudInitialized s"
  "initialized (cloudUpdate H s) = initialized s"
  "cloudInitialized (cloudUpdate H s) = cloudInitialized s"
  by (simp_all add: computeInit_def cloudInit_def computeUpdate_def cloudUpdate_def Let_def
      split: option.split)

lemma clouds_run_kernel [simp]: "(clouds (run_kernel H k s) = None) = (clouds s = None)"
  by (cases k) simp_all

lemma update_generation_log:
  "fst (update_generation H (r, s))
     = r @ (if initialized s then [] else [ComputeInit])
         @ (if \<not> cloudInitialized s \<and> clouds s \<noteq> None then [CloudInit] else [])"
  by (simp add: update_generation_def computeAsync_def Let_def)

lemma update_generation_state [simp]:
  "initialized (snd (update_generation H (r, s)))"
  "cloudInitialized (snd (update_generation H (r, s))) = (cloudInitialized s \<or> clouds s \<noteq> None)"
  "(clouds (snd (update_generation H (r, s))) = None) = (clouds s = None)"
  by (auto simp: update_generation_def computeAsync_def Let_def)

lemma update_physics_log:
  "fst (update_physics H (r, s))
     = r @ [ComputeUpdate] @ (if clouds s = None then [] else [CloudUpdate])"
  by (simp add: update_physics_def computeAsync_def Let_def)

lemma update_physics_state [simp]:
  "initialized (snd (update_physics H (r, s))) = initialized s"
  "cloudInitialized (snd (update_physics H (r, s))) = cloudInitialized s"
  "(clouds (snd (update_physics H (r, s))) = None) = (clouds s = None)"
  by (simp_all add: update_physics_def computeAsync_def Let_def)

lemma update_uniforms_state [simp]:
  "initialized (update_uniforms dt m p s) = initialized s"
  "cloudInitialized (update_uniforms dt m p s) = cloudInitialized s"
  "clouds (update_uniforms dt m p s) = clouds s"
  by (simp_all add: update_uniforms_def)

lemma update_log:
  "fst (update H dt m p (r, s))
     = r @ (if initialized s then [] else [ComputeInit])
         @ (if \<not> cloudInitialized s \<and> clouds s \<noteq> None then [CloudInit] else [])
         @ [ComputeUpdate]
         @ (if clouds s = None then [] else [CloudUpdate])"
  by (simp add: update_def Let_def update_physics_log update_generation_log)

lemma update_state [simp]:
  "initialized (snd (update H dt m p (r, s)))"
  "cloudInitialized (snd (update H dt m p (r, s))) = (cloudInitialized s \<or> clouds s \<noteq> None)"
  "(clouds (snd (update H dt m p (r, s))) = None) = (clouds s = None)"
  by (simp_all add: update_def Let_def)

lemma controller_state [simp]:
  "\<not> initialized (regenerate s)" "\<not> cloudInitialized (regenerate s)"
  "clouds (regenerate s) = clouds s"
  "\<not> initialized (updateStarCount n s)"
  "cloudInitialized (updateStarCount n s) = cloudInitialized s"
  "clouds (updateStarCount n s) = clouds s"
  "initialized (createClouds s) = initialized s"
  "\<not> cloudInitialized (createClouds s)"
  "clouds (createClouds s) \<noteq> None"
  by (simp_all add: regenerate_def updateStarCount_def createGalaxySystem_def createClouds_def)

lemma exec_keeps_flags_sound:
  assumes "flags_sound s e"
  shows "\<exists>e'. observe (fst (exec H c s)) (begin_epoch c e) = Some e'
              \<and> flags_sound (snd (exec H c s)) e'"
proof (cases e)
  case (Pair sg cg)
  with assms show ?thesis
    by (cases c) (auto simp: flags_sound_def update_log)
qed

lemma safe_run_invariant: "flags_sound s e \<Longrightarrow> safe_run H cs s e"
proof (induction cs arbitrary: s e)
  case Nil
  show ?case by simp
next
  case (Cons c cs)
  from exec_keeps_flags_sound [OF Cons.prems, of H c]
  obtain e' where "observe (fst (exec H c s)) (begin_epoch c e) = Some e'"
    and "flags_sound (snd (exec H c s)) e'" by blast
  then show ?case using Cons.IH by simp
qed

text \<open>
  Claim C9. After \<^verbatim>\<open>regenerate()\<close>, and after a change of the star count, the next
  \<^verbatim>\<open>update\<close> dispatches the generation kernel of each subsystem concerned before the physics
  kernel of that subsystem: its dispatches are exactly \<^verbatim>\<open>computeInit\<close>, \<^verbatim>\<open>cloudInit\<close> (if the
  cloud kernels exist and, for a star-count change, the clouds are not yet generated),
  \<^verbatim>\<open>computeUpdate\<close>, \<^verbatim>\<open>cloudUpdate\<close> (if the cloud kernels exist), in this order. And in
  every run of commands from the state \<^verbatim>\<open>main.js\<close> sets up, no physics kernel is ever
  dispatched on a subsystem whose generation kernel has not run in the current epoch.
\<close>

theorem generation_precedes_physics:
  "fst (update H dt mouse3D mousePressed (r, regenerate s))
     = r @ [ComputeInit] @ (if clouds s = None then [] else [CloudInit])
         @ [ComputeUpdate] @ (if clouds s = None then [] else [CloudUpdate])
   \<and> fst (update H dt mouse3D mousePressed (r, updateStarCount newCount s))
     = r @ [ComputeInit] @ (if \<not> cloudInitialized s \<and> clouds s \<noteq> None then [CloudInit] else [])
         @ [ComputeUpdate] @ (if clouds s = None then [] else [CloudUpdate])
   \<and> safe_run H cs (main_init cfg) (False, False)"
proof -
  have "flags_sound (main_init cfg) (False, False)"
    by (simp add: flags_sound_def)
  then have "safe_run H cs (main_init cfg) (False, False)"
    by (rule safe_run_invariant)
  then show ?thesis
    by (simp add: update_log)
qed

section \<open>Relaxation towards the anchor\<close>

lemma vec_add_zero [simp]: "vec_add p vec_zero = p"
  by (cases p) (simp add: vec_zero_def)

lemma vec_length_mul: "vec_length (vec_mul v k) = \<bar>k\<bar> * vec_length v"
proof (cases v)
  case (Vec3 a b c)
  have "a * k * (a * k) + b * k * (b * k) + c * k * (c * k) = (k * k) * (a * a + b * b + c * c)"
    by (simp add: algebra_simps)
  then show ?thesis
    by (simp add: Vec3 real_sqrt_mult)
qed

lemma spring_step:
  "vec_sub (vec_add P (vec_mul (vec_sub A P) c)) A = vec_mul (vec_sub P A) (1 - c)"
  by (cases P; cases A) (simp add: algebra_simps)

lemma rotateY_isometry: "distance (rotateY t p) (rotateY t q) = distance p q"
proof (cases p; cases q)
  fix a b c d e f
  assume pq: "p = Vec3 a b c" "q = Vec3 d e f"
  have ring: "(x * u - z * v - (x' * u - z' * v)) * (x * u - z * v - (x' * u - z' * v))
        + (x * v + z * u - (x' * v + z' * u)) * (x * v + z * u - (x' * v + z' * u))
      = ((x - x') * (x - x') + (z - z') * (z - z')) * (u * u + v * v)"
    for x z x' z' u v :: real
    by (simp add: algebra_simps)
  have cs: "cos t * cos t + sin t * sin t = 1"
    using sin_cos_squared_add2 [of t] by (simp add: power2_eq_square)
  have "(a * cos t - c * sin t - (d * cos t - f * sin t)) * (a * cos t - c * sin t - (d * cos t - f * sin t))
        + (a * sin t + c * cos t - (d * sin t + f * cos t)) * (a * sin t + c * cos t - (d * sin t + f * cos t))
      = (a - d) * (a - d) + (c - f) * (c - f)"
    by (simp only: ring cs mult_1_right)
  then have "(a * cos t - c * sin t - (d * cos t - f * sin t)) * (a * cos t - c * sin t - (d * cos t - f * sin t))
        + (b - e) * (b - e)
        + (a * sin t + c * cos t - (d * sin t + f * cos t)) * (a * sin t + c * cos t - (d * sin t + f * cos t))
      = (a - d) * (a - d) + (b - e) * (b - e) + (c - f) * (c - f)"
    by linarith
  then show ?thesis
    by (simp only: pq distance_def rotateY.simps vec_sub.simps vec_length.simps)
qed

lemma spec_helpers_sel [simp]:
  "applyDifferentialRotation (spec_helpers h ra fo) = spec_applyDifferentialRotation ra"
  "applyMouseForce (spec_helpers h ra fo) = spec_applyMouseForce fo"
  "applySpringForce (spec_helpers h ra fo) = spec_applySpringForce"
  "hash (spec_helpers h ra fo) = h"
  by (simp_all add: spec_helpers_def)

lemma inactive_step:
  assumes "H = spec_helpers h ra fo" and "mouseActive C = 0"
  shows "distance (update_position H C k p a) (update_rotatedOriginal H C a)
           = \<bar>1 - k * deltaTime C\<bar>
             * distance (update_rotatedPos H C p) (update_rotatedOriginal H C a)"
proof -
  have m: "update_mouseForce H C p = vec_zero"
    using assms by (simp add: update_mouseForce_def spec_applyMouseForce_def Let_def)
  have sp: "applySpringForce H = spec_applySpringForce"
    using assms(1) by simp
  have "vec_sub (update_position H C k p a) (update_rotatedOriginal H C a)
          = vec_mul (vec_sub (update_rotatedPos H C p) (update_rotatedOriginal H C a))
              (1 - k * deltaTime C)"
    by (simp add: update_position_def update_springForce_def m sp
        spec_applySpringForce_def spring_step)
  then show ?thesis
    by (simp add: distance_def vec_length_mul)
qed

lemma vec_length_nonneg: "0 \<le> vec_length v"
  by (cases v) simp

lemma kernels_store_particle_step:
  "(idx < COUNT s \<longrightarrow>
      (spawnPositionBuffer (computeUpdate H s) ! idx, originalPositionBuffer (computeUpdate H s) ! idx)
        = particle_step H (compute (unis s)) 2.0
            (spawnPositionBuffer s ! idx, originalPositionBuffer s ! idx))
   \<and> (j < CLOUD_COUNT c \<longrightarrow>
      (cloudPositionBuffer (cloudUpdate_run H C c) ! j,
       cloudOriginalPositionBuffer (cloudUpdate_run H C c) ! j)
        = particle_step H C 1.0 (cloudPositionBuffer c ! j, cloudOriginalPositionBuffer c ! j))"
  by (simp add: computeUpdate_def cloudUpdate_run_def particle_step_def Let_def)

lemma calm_step:
  assumes "H = spec_helpers h ra fo" and "calm_frame C"
  shows "separation (particle_step H C k pa)
           = \<bar>1 - k * deltaTime C\<bar>
             * distance (update_rotatedPos H C (fst pa)) (update_rotatedOriginal H C (snd pa))"
  using inactive_step [OF assms(1), of C k "fst pa" "snd pa"] assms(2)
  by (simp add: separation_def particle_step_def calm_frame_def)

lemma calm_factor:
  assumes "calm_frame C" and "0 \<le> k" and "k \<le> 2"
  shows "\<bar>1 - k * deltaTime C\<bar> \<le> 1"
proof -
  have d: "0 \<le> deltaTime C" "deltaTime C \<le> 1"
    using assms(1) by (simp_all add: calm_frame_def)
  have "0 \<le> k * deltaTime C" using assms(2) d(1) by simp
  moreover have "k * deltaTime C \<le> 2 * 1"
    using assms(2,3) d by (intro mult_mono) simp_all
  ultimately show ?thesis by (simp add: abs_le_iff)
qed

lemma calm_step_le_rotated:
  assumes "H = spec_helpers h ra fo" and "calm_frame C" and "0 \<le> k" and "k \<le> 2"
  shows "separation (particle_step H C k pa)
           \<le> distance (update_rotatedPos H C (fst pa)) (update_rotatedOriginal H C (snd pa))"
proof -
  let ?D = "distance (update_rotatedPos H C (fst pa)) (update_rotatedOriginal H C (snd pa))"
  have D: "0 \<le> ?D" by (simp add: distance_def vec_length_nonneg)
  have "\<bar>1 - k * deltaTime C\<bar> * ?D \<le> 1 * ?D"
    using calm_factor [OF assms(2-4)] D by (rule mult_right_mono)
  then show ?thesis
    unfolding calm_step [OF assms(1,2)] by simp
qed

lemma equal_angle_rotation:
  assumes "H = spec_helpers h ra fo"
    and "ra (rotationSpeed C) (deltaTime C) (axisDistance p)
           = ra (rotationSpeed C) (deltaTime C) (axisDistance a)"
  shows "distance (update_rotatedPos H C p) (update_rotatedOriginal H C a) = distance p a"
  using assms
  by (simp add: update_rotatedPos_def update_rotatedOriginal_def
      spec_applyDifferentialRotation_def rotateY_isometry)

lemma calm_step_le:
  assumes "H = spec_helpers h ra fo" and "calm_frame C" and "0 \<le> k" and "k \<le> 2"
    and "ra (rotationSpeed C) (deltaTime C) (axisDistance (fst pa))
           = ra (rotationSpeed C) (deltaTime C) (axisDistance (snd pa))"
  shows "separation (particle_step H C k pa) \<le> separation pa"
  using calm_step_le_rotated [OF assms(1-4), of pa] equal_angle_rotation [OF assms(1,5)]
  by (simp add: separation_def)

lemma trajectory_starts: "\<exists>rest. trajectory H k Cs pa = pa # rest"
  by (cases Cs) simp_all

lemma calm_run:
  assumes "H = spec_helpers h ra fo" and "0 \<le> k" and "k \<le> 2"
  shows "list_all calm_frame Cs \<Longrightarrow> moved_equally ra H k Cs pa
           \<Longrightarrow> non_increasing (map separation (trajectory H k Cs pa))"
proof (induction Cs arbitrary: pa)
  case Nil
  show ?case by simp
next
  case (Cons C Cs)
  let ?next = "particle_step H C k pa"
  from Cons.prems have calm: "calm_frame C" and rest: "list_all calm_frame Cs"
    and same: "ra (rotationSpeed C) (deltaTime C) (axisDistance (fst pa))
                 = ra (rotationSpeed C) (deltaTime C) (axisDistance (snd pa))"
    and moved: "moved_equally ra H k Cs ?next"
    by simp_all
  obtain tail where t: "trajectory H k Cs ?next = ?next # tail"
    using trajectory_starts by blast
  have "separation ?next \<le> separation pa"
    by (rule calm_step_le [OF assms(1) calm assms(2,3) same])
  moreover have "non_increasing (map separation (trajectory H k Cs ?next))"
    by (rule Cons.IH [OF rest moved])
  ultimately show ?case
    by (simp add: t)
qed

lemma vertical_offset_step:
  assumes "H = spec_helpers h ra fo" and "mouseActive C = 0"
    and "vec_x p = vec_x a" and "vec_z p = vec_z a"
  shows "vec_x (fst (particle_step H C k (p, a))) = vec_x (snd (particle_step H C k (p, a)))
         \<and> vec_z (fst (particle_step H C k (p, a))) = vec_z (snd (particle_step H C k (p, a)))"
proof (cases p; cases a)
  fix x y z x' y' z'
  assume pa: "p = Vec3 x y z" "a = Vec3 x' y' z'"
  with assms(3,4) have e: "x' = x" "z' = z" by simp_all
  have m: "update_mouseForce H C (Vec3 x y z) = vec_zero"
    using assms(1,2) by (simp add: update_mouseForce_def spec_applyMouseForce_def Let_def)
  have sp: "applySpringForce H = spec_applySpringForce"
    and rot: "applyDifferentialRotation H = spec_applyDifferentialRotation ra"
    using assms(1) by simp_all
  show ?thesis
    by (simp add: particle_step_def update_position_def update_springForce_def m sp rot
        update_rotatedPos_def update_rotatedOriginal_def spec_applySpringForce_def
        spec_applyDifferentialRotation_def pa e)
qed

lemma axisDistance_xz: "vec_x p = vec_x a \<Longrightarrow> vec_z p = vec_z a \<Longrightarrow> axisDistance p = axisDistance a"
  by (cases p; cases a) simp

lemma vertical_offset_moved_equally:
  assumes "H = spec_helpers h ra fo"
  shows "list_all (\<lambda>C. mouseActive C = 0) Cs \<Longrightarrow> vec_x (fst pa) = vec_x (snd pa)
           \<Longrightarrow> vec_z (fst pa) = vec_z (snd pa) \<Longrightarrow> moved_equally ra H k Cs pa"
proof (induction Cs arbitrary: pa)
  case Nil
  show ?case by simp
next
  case (Cons C Cs)
  from Cons.prems have i: "mouseActive C = 0" and rest: "list_all (\<lambda>C. mouseActive C = 0) Cs"
    by simp_all
  have s: "vec_x (fst (particle_step H C k pa)) = vec_x (snd (particle_step H C k pa))"
    "vec_z (fst (particle_step H C k pa)) = vec_z (snd (particle_step H C k pa))"
    using vertical_offset_step [OF assms i, of "fst pa" "snd pa" k] Cons.prems(2,3) by simp_all
  have "axisDistance (fst pa) = axisDistance (snd pa)"
    by (rule axisDistance_xz [OF Cons.prems(2,3)])
  then show ?case
    using Cons.IH [OF rest s] by simp
qed

text \<open>
  Two points on a ray from the axis that are turned through different angles end up
  further apart: a rotation that does not move position and anchor equally can separate
  them.
\<close>

lemma differential_rotation_stretches:
  assumes "0 < d1" and "0 < d2" and "cos (t1 - t2) < 1"
  shows "distance (Vec3 d1 0 0) (Vec3 d2 0 0)
           < distance (rotateY t1 (Vec3 d1 0 0)) (rotateY t2 (Vec3 d2 0 0))"
proof -
  have ring: "(d1 * c1 - d2 * c2) * (d1 * c1 - d2 * c2) + (d1 * s1 - d2 * s2) * (d1 * s1 - d2 * s2)
      = d1 * d1 * (c1 * c1 + s1 * s1) + d2 * d2 * (c2 * c2 + s2 * s2)
        - 2 * d1 * d2 * (c1 * c2 + s1 * s2)"
    for c1 c2 s1 s2 :: real
    by (simp add: algebra_simps)
  have cs: "cos t1 * cos t1 + sin t1 * sin t1 = 1" "cos t2 * cos t2 + sin t2 * sin t2 = 1"
    using sin_cos_squared_add2 [of t1] sin_cos_squared_add2 [of t2]
    by (simp_all add: power2_eq_square)
  have after: "(d1 * cos t1 - d2 * cos t2) * (d1 * cos t1 - d2 * cos t2)
        + (d1 * sin t1 - d2 * sin t2) * (d1 * sin t1 - d2 * sin t2)
      = d1 * d1 + d2 * d2 - 2 * d1 * d2 * cos (t1 - t2)"
    by (simp only: ring cs cos_diff mult_1_right)
  have "0 < d1 * d2" using assms(1,2) by simp
  then have "d1 * d2 * cos (t1 - t2) < d1 * d2 * 1"
    using assms(3) by (simp only: mult_less_cancel_left_pos)
  then have "(d1 - d2) * (d1 - d2) < d1 * d1 + d2 * d2 - 2 * d1 * d2 * cos (t1 - t2)"
    by (simp add: algebra_simps)
  then have "sqrt ((d1 - d2) * (d1 - d2))
      < sqrt ((d1 * cos t1 - d2 * cos t2) * (d1 * cos t1 - d2 * cos t2)
        + (d1 * sin t1 - d2 * sin t2) * (d1 * sin t1 - d2 * sin t2))"
    by (simp only: after real_sqrt_less_iff)
  then show ?thesis
    by (simp add: distance_def)
qed

text \<open>
  The relaxation property of Section 8 of the spec, as far as the spec's description of
  the helpers decides it. With the pointer not pressed, in frames with a time step between
  \<open>0\<close> and \<open>1\<close>: the pair a per-frame kernel stores for a particle is the step of that
  particle; the separation of position and anchor after a step of \<^verbatim>\<open>computeUpdate\<close>
  (strength \<open>2\<close>) or \<^verbatim>\<open>cloudUpdate\<close> (strength \<open>1\<close>) is \<open>|1 - strength \<times> \<Delta>t|\<close> times the
  separation of the rotated position and the rotated anchor, hence never more than it, for
  every particle; and where the rotation moves position and anchor equally, the separation
  after a step is at most the separation before it, and along every sequence of such
  frames it is non-increasing step over step. Whether the separation can grow where the
  rotation does not move both equally depends on the angle of the rotation helper, for
  which neither the sources nor the spec give a formula.
\<close>

lemma relaxation_modulo_rotation:
  assumes "H = spec_helpers h ra fo" and "calm_frame C" and "list_all calm_frame Cs"
  shows "(idx < COUNT s \<longrightarrow>
            (spawnPositionBuffer (computeUpdate H s) ! idx,
             originalPositionBuffer (computeUpdate H s) ! idx)
              = particle_step H (compute (unis s)) 2.0
                  (spawnPositionBuffer s ! idx, originalPositionBuffer s ! idx))
       \<and> (j < CLOUD_COUNT c \<longrightarrow>
            (cloudPositionBuffer (cloudUpdate_run H C c) ! j,
             cloudOriginalPositionBuffer (cloudUpdate_run H C c) ! j)
              = particle_step H C 1.0 (cloudPositionBuffer c ! j, cloudOriginalPositionBuffer c ! j))
       \<and> separation (particle_step H C 2.0 pa)
           = \<bar>1 - 2.0 * deltaTime C\<bar>
             * distance (update_rotatedPos H C (fst pa)) (update_rotatedOriginal H C (snd pa))
       \<and> separation (particle_step H C 1.0 pa)
           = \<bar>1 - 1.0 * deltaTime C\<bar>
             * distance (update_rotatedPos H C (fst pa)) (update_rotatedOriginal H C (snd pa))
       \<and> separation (particle_step H C 2.0 pa)
           \<le> distance (update_rotatedPos H C (fst pa)) (update_rotatedOriginal H C (snd pa))
       \<and> separation (particle_step H C 1.0 pa)
           \<le> distance (update_rotatedPos H C (fst pa)) (update_rotatedOriginal H C (snd pa))
       \<and> (moved_equally ra H 2.0 [C] pa \<longrightarrow>
            separation (particle_step H C 2.0 pa) \<le> separation pa)
       \<and> (moved_equally ra H 1.0 [C] pa \<longrightarrow>
            separation (particle_step H C 1.0 pa) \<le> separation pa)
       \<and> (moved_equally ra H 2.0 Cs pa \<longrightarrow>
            non_increasing (map separation (trajectory H 2.0 Cs pa)))
       \<and> (moved_equally ra H 1.0 Cs pa \<longrightarrow>
            non_increasing (map separation (trajectory H 1.0 Cs pa)))"
proof (intro conjI impI)
  show "(spawnPositionBuffer (computeUpdate H s) ! idx,
             originalPositionBuffer (computeUpdate H s) ! idx)
              = particle_step H (compute (unis s)) 2.0
                  (spawnPositionBuffer s ! idx, originalPositionBuffer s ! idx)"
    if "idx < COUNT s"
    using that kernels_store_particle_step [of idx s H] by blast
  show "(cloudPositionBuffer (cloudUpdate_run H C c) ! j,
             cloudOriginalPositionBuffer (cloudUpdate_run H C c) ! j)
              = particle_step H C 1.0 (cloudPositionBuffer c ! j, cloudOriginalPositionBuffer c ! j)"
    if "j < CLOUD_COUNT c"
    using that kernels_store_particle_step [of _ _ H j c C] by blast
  show "separation (particle_step H C 2.0 pa)
           = \<bar>1 - 2.0 * deltaTime C\<bar>
             * distance (update_rotatedPos H C (fst pa)) (update_rotatedOriginal H C (snd pa))"
    by (rule calm_step [OF assms(1,2)])
  show "separation (particle_step H C 1.0 pa)
           = \<bar>1 - 1.0 * deltaTime C\<bar>
             * distance (update_rotatedPos H C (fst pa)) (update_rotatedOriginal H C (snd pa))"
    by (rule calm_step [OF assms(1,2)])
  show "separation (particle_step H C 2.0 pa)
           \<le> distance (update_rotatedPos H C (fst pa)) (update_rotatedOriginal H C (snd pa))"
    by (rule calm_step_le_rotated [OF assms(1,2)]) simp_all
  show "separation (particle_step H C 1.0 pa)
           \<le> distance (update_rotatedPos H C (fst pa)) (update_rotatedOriginal H C (snd pa))"
    by (rule calm_step_le_rotated [OF assms(1,2)]) simp_all
  show "separation (particle_step H C 2.0 pa) \<le> separation pa"
    if "moved_equally ra H 2.0 [C] pa"
    using that by (intro calm_step_le [OF assms(1,2)]) simp_all
  show "separation (particle_step H C 1.0 pa) \<le> separation pa"
    if "moved_equally ra H 1.0 [C] pa"
    using that by (intro calm_step_le [OF assms(1,2)]) simp_all
  show "non_increasing (map separation (trajectory H 2.0 Cs pa))"
    if "moved_equally ra H 2.0 Cs pa"
    using assms(3) that by (intro calm_run [OF assms(1)]) simp_all
  show "non_increasing (map separation (trajectory H 1.0 Cs pa))"
    if "moved_equally ra H 1.0 Cs pa"
    using assms(3) that by (intro calm_run [OF assms(1)]) simp_all
qed

lemma small_compute:
  "compute (unis (main_init small_config)) =
     \<lparr>time = 0, deltaTime = 0.016, mouse = Vec3 0 0 0, mouseActive = 0.0,
      mouseForce = 6.0, mouseRadius = 5.0, rotationSpeed = 0.12\<rparr>"
  by (simp add: main_init_def createClouds_def createGalaxySystem_def construct_def
      small_config_def initializeUniforms_def)

lemma relaxation_modulo_rotation_example:
  "sample_helpers = spec_helpers sample_hash sample_rotationAngle sample_falloff
   \<and> calm_frame (compute (unis (main_init small_config)))
   \<and> list_all calm_frame
        [compute (unis (main_init small_config)), compute (unis (main_init small_config))]
   \<and> 2 < COUNT (main_init small_config)
   \<and> 1 < CLOUD_COUNT (the (clouds (main_init small_config)))
   \<and> moved_equally sample_rotationAngle sample_helpers 2.0
        [compute (unis (main_init small_config)), compute (unis (main_init small_config))]
        (Vec3 3 1 4, Vec3 3 0 4)
   \<and> moved_equally sample_rotationAngle sample_helpers 1.0
        [compute (unis (main_init small_config))] (Vec3 3 1 4, Vec3 3 0 4)
   \<and> non_increasing (map separation (trajectory sample_helpers 2.0
        [compute (unis (main_init small_config)), compute (unis (main_init small_config))]
        (Vec3 3 1 4, Vec3 3 0 4)))
   \<and> separation (particle_step sample_helpers (compute (unis (main_init small_config))) 1.0
        (Vec3 3 1 4, Vec3 3 0 4))
       \<le> separation (Vec3 3 1 4, Vec3 3 0 4)"
proof -
  let ?C = "compute (unis (main_init small_config))"
  have c: "calm_frame ?C" "list_all calm_frame [?C, ?C]"
    by (simp_all add: calm_frame_def small_compute)
  have i: "2 < COUNT (main_init small_config)"
    "1 < CLOUD_COUNT (the (clouds (main_init small_config)))"
    by (simp_all add: small_COUNT small_clouds)
  have q: "list_all (\<lambda>C. mouseActive C = 0) [?C, ?C]" "list_all (\<lambda>C. mouseActive C = 0) [?C]"
    by (simp_all add: small_compute)
  have m2: "moved_equally sample_rotationAngle sample_helpers 2.0 [?C, ?C] (Vec3 3 1 4, Vec3 3 0 4)"
    by (rule vertical_offset_moved_equally [OF sample_helpers_def q(1)]) simp_all
  have m1: "moved_equally sample_rotationAngle sample_helpers 1.0 [?C] (Vec3 3 1 4, Vec3 3 0 4)"
    by (rule vertical_offset_moved_equally [OF sample_helpers_def q(2)]) simp_all
  note r = relaxation_modulo_rotation [OF sample_helpers_def c(1,2), of 2 "main_init small_config" 1
      "the (clouds (main_init small_config))" "(Vec3 3 1 4, Vec3 3 0 4)"]
  from r m2 have n: "non_increasing (map separation (trajectory sample_helpers 2.0 [?C, ?C]
        (Vec3 3 1 4, Vec3 3 0 4)))"
    by blast
  from r m1 have s: "separation (particle_step sample_helpers ?C 1.0 (Vec3 3 1 4, Vec3 3 0 4))
       \<le> separation (Vec3 3 1 4, Vec3 3 0 4)"
    by blast
  show ?thesis
    by (intro conjI sample_helpers_def c i m2 m1 n s)
qed

end
